theory Spec2Isabelle
  imports Complex_Main "HOL-Library.Log_Nat"
begin

section \<open>Python values\<close>

text \<open>
  The order code of \<^verbatim>\<open>Trader.py\<close> and \<^verbatim>\<open>crypto_trader.py\<close> is dynamically typed:
  it subscripts and iterates whatever the JSON decoder returned, and it tests arguments
  for \<^verbatim>\<open>None\<close> and for truthiness. The embedding therefore works on Python values,
  and every operation has the exception Python raises as one of its results.
\<close>

text \<open>
  A Python float is an IEEE 754 double. \<open>Fin r\<close> is the finite double whose value is
  the rational \<open>r\<close> (\<open>Fin 0\<close> is \<^verbatim>\<open>0.0\<close>); the negative zero, the infinities and the
  NaN are values of their own.
\<close>

datatype pyfloat = Fin rat | NegZero | PosInf | NegInf | NaN

text \<open>The numbers a caller passes for a price or a quantity: an \<^verbatim>\<open>int\<close> or a \<^verbatim>\<open>float\<close>.\<close>

datatype pynum = NInt int | NFloat pyfloat

text \<open>
  What \<^verbatim>\<open>Response.json()\<close> returns and what a payload holds. A \<^verbatim>\<open>dict\<close> is the list
  of its items in insertion order (keys are strings and occur once).
\<close>

datatype pyval =
    PNone
  | PBool bool
  | PInt int
  | PFloat pyfloat
  | PStr string
  | PList "pyval list"
  | PDict "(string \<times> pyval) list"

text \<open>
  The exceptions of the modelled code. \<open>LoginRequired\<close> is the
  \<^verbatim>\<open>Exception("Login required for caller")\<close> of \<^verbatim>\<open>_assert_logged_in\<close> (the spec's
  AuthRequired); \<open>ValueError msg\<close> is a \<^verbatim>\<open>ValueError\<close> with its message (the spec's
  InvalidArgument); \<open>HTTPError\<close> is \<^verbatim>\<open>requests.exceptions.HTTPError\<close>;
  \<open>TransportError\<close> stands for every other failure of the HTTP session.
\<close>

datatype error =
    LoginRequired
  | ValueError string
  | TypeError
  | KeyError
  | IndexError
  | AttributeError
  | AssertionError
  | ZeroDivisionError
  | OverflowError
  | UnboundLocalError
  | HTTPError
  | JSONDecodeError
  | TransportError

subsection \<open>Strings\<close>

text \<open>
  \<^verbatim>\<open>str.upper()\<close> and \<^verbatim>\<open>str.lower()\<close> on ASCII text: only the letters a-z and A-Z
  change. (Python also maps letters beyond ASCII; ticker symbols and the order keywords
  are ASCII.)
\<close>

definition upper_char :: "char \<Rightarrow> char" where
  "upper_char c =
     (case map_of (zip ''abcdefghijklmnopqrstuvwxyz'' ''ABCDEFGHIJKLMNOPQRSTUVWXYZ'') c of
        Some u \<Rightarrow> u
      | None \<Rightarrow> c)"

definition lower_char :: "char \<Rightarrow> char" where
  "lower_char c =
     (case map_of (zip ''ABCDEFGHIJKLMNOPQRSTUVWXYZ'' ''abcdefghijklmnopqrstuvwxyz'') c of
        Some l \<Rightarrow> l
      | None \<Rightarrow> c)"

definition upper :: "string \<Rightarrow> string" where
  "upper s = map upper_char s"

definition lower :: "string \<Rightarrow> string" where
  "lower s = map lower_char s"

text \<open>\<^verbatim>\<open>str(x)\<close> for an argument that is \<^verbatim>\<open>None\<close> or a string.\<close>

definition str_opt :: "string option \<Rightarrow> string" where
  "str_opt x = (case x of None \<Rightarrow> ''None'' | Some s \<Rightarrow> s)"

text \<open>The decimal digits of a non-negative integer, as \<^verbatim>\<open>str(n)\<close> writes them.\<close>

definition digit_char :: "int \<Rightarrow> char" where
  "digit_char d = ''0123456789'' ! nat d"

function str_int :: "int \<Rightarrow> string" where
  "str_int n = (if n < 10 then [digit_char n] else str_int (n div 10) @ [digit_char (n mod 10)])"
  by pat_completeness auto
termination
  by (relation "measure nat") auto

declare str_int.simps [simp del]

subsection \<open>Floats\<close>

definition pow2 :: "int \<Rightarrow> rat" where
  "pow2 e = (if 0 \<le> e then 2 ^ nat e else 1 / 2 ^ nat (- e))"

text \<open>Rounding to the nearest integer, a tie to the even one.\<close>

definition round_half_even :: "rat \<Rightarrow> int" where
  "round_half_even x =
     (let f = \<lfloor>x\<rfloor>; d = x - of_int f
      in if d < 1 / 2 then f
         else if 1 / 2 < d then f + 1
         else if even f then f else f + 1)"

text \<open>For \<open>0 < x\<close>, the exponent \<open>e\<close> with \<open>2 ^ e \<le> x < 2 ^ (e + 1)\<close>.\<close>

definition floor_log2 :: "rat \<Rightarrow> int" where
  "floor_log2 x =
     (let (n, d) = quotient_of x; c = bitlen n - bitlen d
      in if pow2 c \<le> x then c else c - 1)"

text \<open>
  The double nearest to a rational (round to nearest, ties to even): 53 significant
  bits, the least exponent of the subnormal range \<open>-1074\<close>, overflow to an infinity
  from \<open>2 ^ 1024\<close> on. The sign of a result that rounds to zero is the sign of \<open>x\<close>.
\<close>

definition round_double :: "rat \<Rightarrow> pyfloat" where
  "round_double x =
     (if x = 0 then Fin 0
      else
        let a = \<bar>x\<bar>;
            ex = max (floor_log2 a - 52) (- 1074);
            m = round_half_even (a / pow2 ex);
            r = of_int m * pow2 ex
        in if pow2 1024 \<le> r then (if x < 0 then NegInf else PosInf)
           else if r = 0 then (if x < 0 then NegZero else Fin 0)
           else Fin (if x < 0 then - r else r))"

definition is_zero :: "pyfloat \<Rightarrow> bool" where
  "is_zero x = (x = Fin 0 \<or> x = NegZero)"

text \<open>The sign bit.\<close>

fun is_negative :: "pyfloat \<Rightarrow> bool" where
  "is_negative (Fin r) = (r < 0)"
| "is_negative NegZero = True"
| "is_negative NegInf = True"
| "is_negative PosInf = False"
| "is_negative NaN = False"

definition signed_zero :: "bool \<Rightarrow> pyfloat" where
  "signed_zero neg = (if neg then NegZero else Fin 0)"

definition signed_inf :: "bool \<Rightarrow> pyfloat" where
  "signed_inf neg = (if neg then NegInf else PosInf)"

text \<open>
  \<^verbatim>\<open>a / b\<close> on two floats: Python raises \<^verbatim>\<open>ZeroDivisionError\<close> for a zero divisor,
  whatever the dividend; everything else is the IEEE quotient.
\<close>

definition float_truediv :: "pyfloat \<Rightarrow> pyfloat \<Rightarrow> error + pyfloat" where
  "float_truediv a b =
     (if is_zero b then Inl ZeroDivisionError
      else if a = NaN \<or> b = NaN then Inr NaN
      else
        let neg = (is_negative a \<noteq> is_negative b)
        in case (a, b) of
             (Fin x, Fin y) \<Rightarrow>
               Inr (if x = 0 then signed_zero neg else round_double (x / y))
           | (NegZero, Fin y) \<Rightarrow> Inr (signed_zero neg)
           | (Fin x, _) \<Rightarrow> Inr (signed_zero neg)
           | (NegZero, _) \<Rightarrow> Inr (signed_zero neg)
           | (_, Fin y) \<Rightarrow> Inr (signed_inf neg)
           | (_, _) \<Rightarrow> Inr NaN)"

text \<open>\<^verbatim>\<open>float(n)\<close> for an int: the nearest double, or \<^verbatim>\<open>OverflowError\<close>.\<close>

definition float_of_int :: "int \<Rightarrow> error + pyfloat" where
  "float_of_int n =
     (case round_double (of_int n) of
        PosInf \<Rightarrow> Inl OverflowError
      | NegInf \<Rightarrow> Inl OverflowError
      | f \<Rightarrow> Inr f)"

text \<open>\<^verbatim>\<open>float(x)\<close> for a number.\<close>

fun py_float :: "pynum \<Rightarrow> error + pyfloat" where
  "py_float (NInt n) = float_of_int n"
| "py_float (NFloat f) = Inr f"

text \<open>
  \<^verbatim>\<open>a / b\<close> on numbers. Two ints divide exactly and the quotient is rounded once
  (zero by a negative int is \<^verbatim>\<open>-0.0\<close>); a mixed pair converts the int first.
\<close>

fun num_truediv :: "pynum \<Rightarrow> pynum \<Rightarrow> error + pyfloat" where
  "num_truediv (NInt a) (NInt b) =
     (if b = 0 then Inl ZeroDivisionError
      else if a = 0 then Inr (signed_zero (b < 0))
      else case round_double (of_int a / of_int b) of
             PosInf \<Rightarrow> Inl OverflowError
           | NegInf \<Rightarrow> Inl OverflowError
           | f \<Rightarrow> Inr f)"
| "num_truediv a b =
     (case py_float a of
        Inl e \<Rightarrow> Inl e
      | Inr x \<Rightarrow> (case py_float b of Inl e \<Rightarrow> Inl e | Inr y \<Rightarrow> float_truediv x y))"

text \<open>
  \<^verbatim>\<open>int(x)\<close> for a number: a float is truncated toward zero; an infinity raises
  \<^verbatim>\<open>OverflowError\<close> and the NaN raises \<^verbatim>\<open>ValueError\<close>.
\<close>

definition trunc_rat :: "rat \<Rightarrow> int" where
  "trunc_rat r = (if 0 \<le> r then \<lfloor>r\<rfloor> else - \<lfloor>- r\<rfloor>)"

fun py_int :: "pynum \<Rightarrow> error + int" where
  "py_int (NInt n) = Inr n"
| "py_int (NFloat (Fin r)) = Inr (trunc_rat r)"
| "py_int (NFloat NegZero) = Inr 0"
| "py_int (NFloat NaN) = Inl (ValueError ''cannot convert float NaN to integer'')"
| "py_int (NFloat _) = Inl OverflowError"

text \<open>\<^verbatim>\<open>x <= 0\<close> for a number (false for the NaN).\<close>

fun le_zero :: "pynum \<Rightarrow> bool" where
  "le_zero (NInt n) = (n \<le> 0)"
| "le_zero (NFloat (Fin r)) = (r \<le> 0)"
| "le_zero (NFloat NegZero) = True"
| "le_zero (NFloat NegInf) = True"
| "le_zero (NFloat _) = False"

text \<open>
  \<^verbatim>\<open>"{0:.Nf}".format(x)\<close> for a float: the exact value rounded to \<open>N\<close> decimals (ties
  to even), the integer part, a point and \<open>N\<close> digits, after a minus sign when the
  sign bit is set.
\<close>

definition format_f :: "nat \<Rightarrow> pyfloat \<Rightarrow> string" where
  "format_f prec x =
     (case x of
        NaN \<Rightarrow> ''nan''
      | PosInf \<Rightarrow> ''inf''
      | NegInf \<Rightarrow> ''-inf''
      | _ \<Rightarrow>
          let r = (case x of Fin r \<Rightarrow> \<bar>r\<bar> | _ \<Rightarrow> 0);
              n = round_half_even (r * 10 ^ prec);
              whole = str_int (n div 10 ^ prec);
              frac = str_int (n mod 10 ^ prec);
              digits = (if prec = 0 then whole
                        else whole @ ''.'' @ replicate (prec - length frac) (CHR ''0'') @ frac)
          in (if is_negative x then ''-'' else '''') @ digits)"

subsection \<open>Truthiness, subscripts, iteration\<close>

definition float_truthy :: "pyfloat \<Rightarrow> bool" where
  "float_truthy x = (\<not> is_zero x)"

text \<open>\<^verbatim>\<open>bool(v)\<close>.\<close>

fun truthy :: "pyval \<Rightarrow> bool" where
  "truthy PNone = False"
| "truthy (PBool b) = b"
| "truthy (PInt n) = (n \<noteq> 0)"
| "truthy (PFloat x) = float_truthy x"
| "truthy (PStr s) = (s \<noteq> [])"
| "truthy (PList xs) = (xs \<noteq> [])"
| "truthy (PDict kvs) = (kvs \<noteq> [])"

fun val_of_num :: "pynum \<Rightarrow> pyval" where
  "val_of_num (NInt n) = PInt n"
| "val_of_num (NFloat x) = PFloat x"

definition val_of_num_opt :: "pynum option \<Rightarrow> pyval" where
  "val_of_num_opt x = (case x of None \<Rightarrow> PNone | Some n \<Rightarrow> val_of_num n)"

definition val_of_str_opt :: "string option \<Rightarrow> pyval" where
  "val_of_str_opt x = (case x of None \<Rightarrow> PNone | Some s \<Rightarrow> PStr s)"

text \<open>\<^verbatim>\<open>v[key]\<close> with a string key: only a dict accepts it.\<close>

fun getitem :: "pyval \<Rightarrow> string \<Rightarrow> error + pyval" where
  "getitem (PDict kvs) k = (case map_of kvs k of None \<Rightarrow> Inl KeyError | Some v \<Rightarrow> Inr v)"
| "getitem _ k = Inl TypeError"

text \<open>
  \<^verbatim>\<open>v[0]\<close>: the first element of a list, the first character of a string; a dict
  decoded from JSON has no key \<^verbatim>\<open>0\<close>.
\<close>

fun getitem0 :: "pyval \<Rightarrow> error + pyval" where
  "getitem0 (PList xs) = (case xs of [] \<Rightarrow> Inl IndexError | x # _ \<Rightarrow> Inr x)"
| "getitem0 (PStr s) = (case s of [] \<Rightarrow> Inl IndexError | c # _ \<Rightarrow> Inr (PStr [c]))"
| "getitem0 (PDict kvs) = Inl KeyError"
| "getitem0 _ = Inl TypeError"

text \<open>\<^verbatim>\<open>v.get(key)\<close>: a dict method; \<^verbatim>\<open>None\<close> for a missing key.\<close>

fun dict_get :: "pyval \<Rightarrow> string \<Rightarrow> error + pyval" where
  "dict_get (PDict kvs) k = (case map_of kvs k of None \<Rightarrow> Inr PNone | Some v \<Rightarrow> Inr v)"
| "dict_get _ k = Inl AttributeError"

text \<open>
  The items \<^verbatim>\<open>for x in v\<close> visits: the elements of a list, the keys of a dict, the
  characters of a string.
\<close>

fun py_iter :: "pyval \<Rightarrow> error + pyval list" where
  "py_iter (PList xs) = Inr xs"
| "py_iter (PDict kvs) = Inr (map (\<lambda>kv. PStr (fst kv)) kvs)"
| "py_iter (PStr s) = Inr (map (\<lambda>c. PStr [c]) s)"
| "py_iter _ = Inl TypeError"

text \<open>\<^verbatim>\<open>v.upper()\<close>: a string method.\<close>

fun py_upper :: "pyval \<Rightarrow> error + string" where
  "py_upper (PStr s) = Inr (upper s)"
| "py_upper _ = Inl AttributeError"


section \<open>The HTTP session\<close>

text \<open>
  A \<^verbatim>\<open>requests.Response\<close>, as far as the code reads it: the status code, which
  \<^verbatim>\<open>raise_for_status()\<close> inspects, and the body that \<^verbatim>\<open>json()\<close> decodes
  (\<open>None\<close> when the body is not JSON).
\<close>

record response =
  status_code :: nat
  json_body :: "pyval option"

text \<open>
  A request the session sent: the trace of a call lists them in order, a \<^verbatim>\<open>POST\<close>
  with the \<^verbatim>\<open>data\<close> dict it carried. \<open>GetAccount\<close> is a call of
  \<^verbatim>\<open>self.get_account()\<close>.
\<close>

datatype call =
    Get string
  | Post pyval "(string \<times> pyval) list option"
  | GetAccount

text \<open>
  What lies outside \<^verbatim>\<open>Trader.py\<close>. The module \<^verbatim>\<open>endpoints\<close> is not part of the
  sources, so the URLs it returns are parameters; the server's answer to a request is a
  function of the request. \<^verbatim>\<open>_submit_order\<close> calls \<^verbatim>\<open>self.get_account()\<close>, which
  \<^verbatim>\<open>Trader.py\<close> does not define: its outcome is the parameter \<open>get_account\<close>
  (\<open>Inl AttributeError\<close> for the class as it stands, a value for a class that
  supplies the method).
\<close>

record env =
  endpoints_quotes :: string
  endpoints_instruments :: string
  endpoints_orders :: string
  endpoints_logout :: string
  session_get :: "string \<Rightarrow> error + response"
  session_post :: "pyval \<Rightarrow> (string \<times> pyval) list option \<Rightarrow> error + response"
  get_account :: "error + pyval"

text \<open>
  A computation that may raise and that sends requests: from the trace so far to an
  exception or a result, and the trace extended by the requests it sent.
\<close>

type_synonym 'a io = "call list \<Rightarrow> (error + 'a) \<times> call list"

definition io_return :: "'a \<Rightarrow> 'a io" where
  "io_return x tr = (Inr x, tr)"

definition io_raise :: "error \<Rightarrow> 'a io" where
  "io_raise e tr = (Inl e, tr)"

definition io_lift :: "error + 'a \<Rightarrow> 'a io" where
  "io_lift r tr = (r, tr)"

definition io_bind :: "'a io \<Rightarrow> ('a \<Rightarrow> 'b io) \<Rightarrow> 'b io" where
  "io_bind m f tr = (case m tr of (Inl e, tr') \<Rightarrow> (Inl e, tr') | (Inr x, tr') \<Rightarrow> f x tr')"

definition do_get :: "env \<Rightarrow> string \<Rightarrow> response io" where
  "do_get E url tr = (session_get E url, tr @ [Get url])"

definition do_post :: "env \<Rightarrow> pyval \<Rightarrow> (string \<times> pyval) list option \<Rightarrow> response io" where
  "do_post E url data tr = (session_post E url data, tr @ [Post url data])"

definition do_get_account :: "env \<Rightarrow> pyval io" where
  "do_get_account E tr = (get_account E, tr @ [GetAccount])"

text \<open>\<^verbatim>\<open>res.raise_for_status()\<close>: an \<^verbatim>\<open>HTTPError\<close> for a 4xx or 5xx status.\<close>

definition raise_for_status :: "response \<Rightarrow> error + unit" where
  "raise_for_status res =
     (if 400 \<le> status_code res \<and> status_code res < 600 then Inl HTTPError else Inr ())"

text \<open>\<^verbatim>\<open>res.json()\<close>.\<close>

definition response_json :: "response \<Rightarrow> error + pyval" where
  "response_json res = (case json_body res of None \<Rightarrow> Inl JSONDecodeError | Some v \<Rightarrow> Inr v)"

section \<open>Trader\<close>

text \<open>
  The fields of a \<^verbatim>\<open>Trader\<close> the modelled methods touch. \<open>headers\<close> is the dict
  \<^verbatim>\<open>self.headers\<close>: a key may be present with the value \<^verbatim>\<open>None\<close>.
\<close>

record trader =
  headers :: "string \<rightharpoonup> pyval"
  auth_token :: pyval
  refresh_token :: pyval

definition client_id :: string where
  "client_id = ''c82SH0WZOsabOXGP2sxqcj34FxkvfnWRZBKlBjFS''"

text \<open>\<^verbatim>\<open>Trader.__init__\<close>: the seven fixed headers, no token.\<close>

definition Trader_init :: trader where
  "Trader_init =
     \<lparr> headers = map_of
         [(''Accept'', PStr ''*/*''),
          (''Accept-Encoding'', PStr ''gzip, deflate''),
          (''Accept-Language'',
             PStr ''en;q=1, fr;q=0.9, de;q=0.8, ja;q=0.7, nl;q=0.6, it;q=0.5''),
          (''Content-Type'', PStr ''application/x-www-form-urlencoded; charset=utf-8''),
          (''X-robinhood-API-Version'', PStr ''1.265.0''),
          (''Connection'', PStr ''keep-alive''),
          (''User-Agent'', PStr ''robinhood/823 (iPhone; iOS 7.1.2; Scale/2.00)'')],
       auth_token = PNone,
       refresh_token = PNone \<rparr>"

text \<open>
  \<^verbatim>\<open>logout\<close> (lines 102-123). The \<^verbatim>\<open>try\<close> block catches an \<^verbatim>\<open>HTTPError\<close> only;
  any other exception of the \<^verbatim>\<open>POST\<close> leaves the method before the two assignments.
  After the block, \<^verbatim>\<open>self.headers['Authorization'] = None\<close> stores \<^verbatim>\<open>None\<close> under
  the key, and \<^verbatim>\<open>return req\<close> finds \<^verbatim>\<open>req\<close> unbound when the \<^verbatim>\<open>POST\<close> itself
  raised the \<^verbatim>\<open>HTTPError\<close>.
\<close>

definition logout :: "env \<Rightarrow> trader \<Rightarrow> call list \<Rightarrow> (error + response) \<times> trader \<times> call list" where
  "logout E t tr =
     (let payload = [(''client_id'', PStr client_id), (''token'', refresh_token t)];
          url = PStr (endpoints_logout E);
          tr' = tr @ [Post url (Some payload)];
          t' = t\<lparr> headers := (headers t)(''Authorization'' \<mapsto> PNone), auth_token := PNone \<rparr>
      in case session_post E url (Some payload) of
           Inr req \<Rightarrow> (Inr req, t', tr')
         | Inl HTTPError \<Rightarrow> (Inl UnboundLocalError, t', tr')
         | Inl e \<Rightarrow> (Inl e, t, tr'))"

text \<open>\<^verbatim>\<open>is_logged_in\<close> (lines 125-126): the key is in the dict.\<close>

definition is_logged_in :: "trader \<Rightarrow> bool" where
  "is_logged_in t = (''Authorization'' \<in> dom (headers t))"

text \<open>\<^verbatim>\<open>_assert_logged_in\<close> (lines 128-130).\<close>

definition assert_logged_in :: "trader \<Rightarrow> error + unit" where
  "assert_logged_in t = (if \<not> is_logged_in t then Inl LoginRequired else Inr ())"

text \<open>\<^verbatim>\<open>_req_get\<close> (lines 132-135).\<close>

definition req_get :: "env \<Rightarrow> string \<Rightarrow> response io" where
  "req_get E url =
     io_bind (do_get E url) (\<lambda>res.
     io_bind (io_lift (raise_for_status res)) (\<lambda>_.
     io_return res))"

text \<open>\<^verbatim>\<open>_req_get_json\<close> (lines 137-138).\<close>

definition req_get_json :: "env \<Rightarrow> string \<Rightarrow> pyval io" where
  "req_get_json E url = io_bind (req_get E url) (\<lambda>res. io_lift (response_json res))"

text \<open>
  \<^verbatim>\<open>instrument\<close> (lines 157-167): the first element of the \<^verbatim>\<open>results\<close> of the
  instrument search.
\<close>

definition instrument :: "env \<Rightarrow> string \<Rightarrow> pyval io" where
  "instrument E symbol =
     io_bind (req_get_json E (endpoints_instruments E @ ''?symbol='' @ symbol)) (\<lambda>js.
     io_bind (io_lift (getitem js ''results'')) (\<lambda>results.
     io_lift (getitem0 results)))"

text \<open>
  \<^verbatim>\<open>quote\<close> (lines 169-180), called with one symbol: \<^verbatim>\<open>",".join([stock])\<close> is the
  symbol itself, and a \<^verbatim>\<open>TypeError\<close> when the symbol is \<^verbatim>\<open>None\<close>.
\<close>

definition quote :: "env \<Rightarrow> string option \<Rightarrow> pyval io" where
  "quote E stock =
     (case stock of
        None \<Rightarrow> io_raise TypeError
      | Some s \<Rightarrow>
          io_bind (req_get E (endpoints_quotes E @ ''?symbols='' @ s)) (\<lambda>res.
          io_lift (response_json res)))"


section \<open>Equity orders: \<^verbatim>\<open>_submit_order\<close>\<close>

text \<open>
  The arguments of \<^verbatim>\<open>_submit_order\<close> (lines 388-396), in the order of the signature:
  \<open>symbol\<close>, \<open>order_type\<close>, \<open>time_in_force\<close>, \<open>trigger\<close> and \<open>side\<close> are
  \<^verbatim>\<open>None\<close> or a string, \<open>price\<close>, \<open>stop_price\<close> and \<open>quantity\<close> are \<^verbatim>\<open>None\<close> or
  a number.
\<close>

definition ebind :: "error + 'a \<Rightarrow> ('a \<Rightarrow> error + 'b) \<Rightarrow> error + 'b" where
  "ebind m f = (case m of Inl e \<Rightarrow> Inl e | Inr x \<Rightarrow> f x)"

text \<open>
  The loop of lines 433-436 over the items \<open>results\<close> that the iteration visits:
  \<open>PNone\<close> when no item matched and \<^verbatim>\<open>instrument_URL\<close> kept its initial
  \<^verbatim>\<open>None\<close>.
\<close>

fun find_instrument :: "string \<Rightarrow> pyval list \<Rightarrow> error + pyval" where
  "find_instrument symbol [] = Inr PNone"
| "find_instrument symbol (result # rest) =
     ebind (getitem result ''symbol'') (\<lambda>s.
     ebind (py_upper s) (\<lambda>u.
       if u = upper symbol then getitem result ''url''
       else find_instrument symbol rest))"

text \<open>
  Lines 423-438: the login check, the quote lookup for the default price, and the
  instrument resolution. The result is \<^verbatim>\<open>current_bid_price\<close> and
  \<^verbatim>\<open>instrument_URL\<close>. (Lines 440-441 cannot run: \<^verbatim>\<open>symbol\<close> is not \<^verbatim>\<open>None\<close>
  there.)
\<close>

definition submit_order_lookup :: "env \<Rightarrow> trader \<Rightarrow> string option \<Rightarrow> (pyval \<times> pyval) io" where
  "submit_order_lookup E t symbol =
     io_bind (io_lift (assert_logged_in t)) (\<lambda>_.
     io_bind (quote E symbol) (\<lambda>current_quote.
     io_bind (io_lift (getitem current_quote ''bid_price'')) (\<lambda>current_bid_price.
       case symbol of
         None \<Rightarrow>
           io_raise (ValueError ''Neither instrument_URL nor symbol were passed to submit_order'')
       | Some smb \<Rightarrow>
           io_bind (instrument E smb) (\<lambda>inst.
           io_bind (io_lift (py_iter inst)) (\<lambda>results.
           io_bind (io_lift (find_instrument smb results)) (\<lambda>instrument_URL.
             if instrument_URL = PNone
             then io_raise (ValueError
                    (''instrument_URL could not be defined. Symbol '' @ smb @ '' not found''))
             else io_return (current_bid_price, instrument_URL)))))))"

text \<open>Lines 446-450: the order type when none was passed.\<close>

definition infer_order_type ::
  "string option \<Rightarrow> pynum option \<Rightarrow> pynum option \<Rightarrow> string option" where
  "infer_order_type order_type price stop_price =
     (if order_type = None \<and> price = None
      then (if stop_price = None then Some ''market'' else Some ''limit'')
      else order_type)"

text \<open>Lines 458-459.\<close>

definition check_order_type :: "string \<Rightarrow> error + unit" where
  "check_order_type order_type =
     (if order_type \<noteq> ''market'' \<and> order_type \<noteq> ''limit''
      then Inl (ValueError ''Invalid order_type in call to submit_order'')
      else Inr ())"

text \<open>Lines 461-465.\<close>

definition check_limit_price :: "string \<Rightarrow> pynum option \<Rightarrow> error + unit" where
  "check_limit_price order_type price =
     (if order_type = ''limit''
      then (case price of
              None \<Rightarrow> Inl (ValueError ''Limit order has no price in call to submit_order'')
            | Some p \<Rightarrow>
                if le_zero p
                then Inl (ValueError ''Price must be positive number in call to submit_order'')
                else Inr ())
      else Inr ())"

text \<open>Lines 467-471.\<close>

definition check_stop_price :: "string \<Rightarrow> pynum option \<Rightarrow> error + unit" where
  "check_stop_price trigger stop_price =
     (if trigger = ''stop''
      then (case stop_price of
              None \<Rightarrow> Inl (ValueError ''Stop order has no stop_price in call to submit_order'')
            | Some p \<Rightarrow>
                if le_zero p
                then Inl (ValueError
                       ''Stop_price must be positive number in call to submit_order'')
                else Inr ())
      else Inr ())"

text \<open>Lines 473-475.\<close>

definition check_stop_trigger :: "string \<Rightarrow> pynum option \<Rightarrow> error + unit" where
  "check_stop_trigger trigger stop_price =
     (if stop_price \<noteq> None \<and> trigger \<noteq> ''stop''
      then Inl (ValueError ''Stop price set for non-stop order in call to submit_order'')
      else Inr ())"

text \<open>Lines 477-479.\<close>

definition check_price_present :: "string \<Rightarrow> pynum option \<Rightarrow> error + unit" where
  "check_price_present order_type price =
     (if price = None \<and> order_type = ''limit''
      then Inl (ValueError ''Limit order has no price in call to submit_order'')
      else Inr ())"

text \<open>
  Lines 481-486: a price that was passed is refused for a market order and converted
  by \<^verbatim>\<open>float\<close> otherwise; a price that was not passed becomes the current bid price,
  whatever value the quote held under \<^verbatim>\<open>bid_price\<close>.
\<close>

definition resolve_price :: "string \<Rightarrow> pynum option \<Rightarrow> pyval \<Rightarrow> error + pyval" where
  "resolve_price order_type price current_bid_price =
     (case price of
        Some p \<Rightarrow>
          if lower order_type = ''market''
          then Inl (ValueError ''Market order has price limit in call to submit_order'')
          else ebind (py_float p) (\<lambda>f. Inr (PFloat f))
      | None \<Rightarrow> Inr current_bid_price)"

text \<open>Lines 488-494.\<close>

definition resolve_quantity :: "pynum option \<Rightarrow> error + int" where
  "resolve_quantity quantity =
     (case quantity of
        None \<Rightarrow> Inl (ValueError ''No quantity specified in call to submit_order'')
      | Some q \<Rightarrow>
          ebind (py_int q) (\<lambda>n.
            if n \<le> 0
            then Inl (ValueError ''Quantity must be positive number in call to submit_order'')
            else Inr n))"

text \<open>The local variables of \<^verbatim>\<open>_submit_order\<close> after line 494.\<close>

record order_fields =
  f_symbol :: string
  f_order_type :: string
  f_time_in_force :: string
  f_trigger :: string
  f_price :: pyval
  f_stop_price :: "pynum option"
  f_quantity :: int
  f_side :: string

text \<open>Lines 443-494: the checks and the normalisation, in the order of the source.\<close>

definition submit_order_validate ::
  "pyval \<Rightarrow> string option \<Rightarrow> string option \<Rightarrow> string option \<Rightarrow> string option \<Rightarrow>
   pynum option \<Rightarrow> pynum option \<Rightarrow> pynum option \<Rightarrow> string option \<Rightarrow> error + order_fields" where
  "submit_order_validate current_bid_price symbol order_type time_in_force trigger
     price stop_price quantity side =
     (case side of
        None \<Rightarrow> Inl (ValueError ''Order is neither buy nor sell in call to submit_order'')
      | Some sd \<Rightarrow>
          let order_type1 = infer_order_type order_type price stop_price;
              symbol' = upper (str_opt symbol);
              order_type' = lower (str_opt order_type1);
              time_in_force' = lower (str_opt time_in_force);
              trigger' = lower (str_opt trigger);
              side' = lower sd
          in ebind (check_order_type order_type') (\<lambda>_.
             ebind (check_limit_price order_type' price) (\<lambda>_.
             ebind (check_stop_price trigger' stop_price) (\<lambda>_.
             ebind (check_stop_trigger trigger' stop_price) (\<lambda>_.
             ebind (check_price_present order_type' price) (\<lambda>_.
             ebind (resolve_price order_type' price current_bid_price) (\<lambda>price'.
             ebind (resolve_quantity quantity) (\<lambda>quantity'.
               Inr \<lparr> f_symbol = symbol', f_order_type = order_type',
                     f_time_in_force = time_in_force', f_trigger = trigger',
                     f_price = price', f_stop_price = stop_price,
                     f_quantity = quantity', f_side = side' \<rparr>))))))))"

text \<open>
  Lines 496-511: the payload keeps, in this order, the fields whose value is not
  \<^verbatim>\<open>None\<close>. The list of the candidates is built first, which calls
  \<^verbatim>\<open>self.get_account()\<close> and subscripts its result.
\<close>

definition build_payload :: "pyval \<Rightarrow> pyval \<Rightarrow> order_fields \<Rightarrow> (string \<times> pyval) list" where
  "build_payload account_url instrument_URL f =
     filter (\<lambda>fv. snd fv \<noteq> PNone)
       [(''account'', account_url),
        (''instrument'', instrument_URL),
        (''symbol'', PStr (f_symbol f)),
        (''type'', PStr (f_order_type f)),
        (''time_in_force'', PStr (f_time_in_force f)),
        (''trigger'', PStr (f_trigger f)),
        (''price'', f_price f),
        (''stop_price'', val_of_num_opt (f_stop_price f)),
        (''quantity'', PInt (f_quantity f)),
        (''side'', PStr (f_side f))]"

text \<open>
  \<^verbatim>\<open>_submit_order\<close> up to line 511: the payload the method is about to send. A result
  \<open>Inr payload\<close> is a submission that reached the emission of its payload.
\<close>

definition submit_order_payload ::
  "env \<Rightarrow> trader \<Rightarrow> string option \<Rightarrow> string option \<Rightarrow> string option \<Rightarrow> string option \<Rightarrow>
   pynum option \<Rightarrow> pynum option \<Rightarrow> pynum option \<Rightarrow> string option \<Rightarrow>
   (string \<times> pyval) list io" where
  "submit_order_payload E t symbol order_type time_in_force trigger
     price stop_price quantity side =
     io_bind (submit_order_lookup E t symbol) (\<lambda>(current_bid_price, instrument_URL).
     io_bind (io_lift (submit_order_validate current_bid_price symbol order_type
                         time_in_force trigger price stop_price quantity side)) (\<lambda>f.
     io_bind (do_get_account E) (\<lambda>account.
     io_bind (io_lift (getitem account ''url'')) (\<lambda>account_url.
     io_return (build_payload account_url instrument_URL f)))))"

text \<open>\<^verbatim>\<open>_submit_order\<close> (lines 388-517): the payload is posted to the orders endpoint.\<close>

definition submit_order ::
  "env \<Rightarrow> trader \<Rightarrow> string option \<Rightarrow> string option \<Rightarrow> string option \<Rightarrow> string option \<Rightarrow>
   pynum option \<Rightarrow> pynum option \<Rightarrow> pynum option \<Rightarrow> string option \<Rightarrow> response io" where
  "submit_order E t symbol order_type time_in_force trigger price stop_price quantity side =
     io_bind (submit_order_payload E t symbol order_type time_in_force trigger
                price stop_price quantity side) (\<lambda>payload.
     io_bind (do_post E (PStr (endpoints_orders E)) (Some payload)) (\<lambda>res.
     io_bind (io_lift (raise_for_status res)) (\<lambda>_.
     io_return res)))"


section \<open>Equity orders: \<^verbatim>\<open>cancel_order\<close>\<close>

text \<open>A \<^verbatim>\<open>try\<close> block whose \<^verbatim>\<open>except\<close> clause turns an \<^verbatim>\<open>HTTPError\<close> into \<open>e\<close>.\<close>

definition io_catch_http :: "'a io \<Rightarrow> error \<Rightarrow> 'a io" where
  "io_catch_http m e tr =
     (case m tr of (Inl HTTPError, tr') \<Rightarrow> (Inl e, tr') | r \<Rightarrow> r)"

text \<open>
  Lines 530-542, and again lines 546-560: fetch the order and, when it has a
  \<^verbatim>\<open>cancel\<close> link, post to the link and return the response. \<open>Some res\<close> is that
  \<^verbatim>\<open>return res\<close>; \<open>None\<close> means that the order has no link and control leaves the
  block. (The messages of the two \<^verbatim>\<open>ValueError\<close>s end with the text of the caught
  error, which is left out.)
\<close>

definition cancel_fetched :: "env \<Rightarrow> string \<Rightarrow> response option io" where
  "cancel_fetched E order_id =
     io_bind (io_catch_http
                (io_bind (do_get E (endpoints_orders E @ order_id)) (\<lambda>r.
                 io_lift (response_json r)))
                (ValueError (''Failed to get Order for ID: '' @ order_id))) (\<lambda>order.
     io_bind (io_lift (dict_get order ''cancel'')) (\<lambda>link.
       if link \<noteq> PNone
       then io_bind (io_catch_http
                       (io_bind (do_post E link None) (\<lambda>res.
                        io_bind (io_lift (raise_for_status res)) (\<lambda>_.
                        io_return res)))
                       (ValueError (''Failed to cancel order ID: '' @ order_id))) (\<lambda>res.
            io_return (Some res))
       else io_return None))"

fun is_str :: "pyval \<Rightarrow> bool" where
  "is_str (PStr s) = True"
| "is_str _ = False"

fun is_dict :: "pyval \<Rightarrow> bool" where
  "is_dict (PDict kvs) = True"
| "is_dict _ = False"

text \<open>
  \<^verbatim>\<open>cancel_order\<close> (lines 519-568). The result \<open>None\<close> is Python's \<^verbatim>\<open>None\<close>, which
  the method returns when it runs off its end. The \<^verbatim>\<open>elif\<close> and the \<^verbatim>\<open>else\<close> of
  lines 562-568 belong to the second \<^verbatim>\<open>if\<close> (line 544). In the dict branch the
  identifier is concatenated to the orders URL, a \<^verbatim>\<open>TypeError\<close> unless it is a string.
\<close>

definition cancel_order :: "env \<Rightarrow> pyval \<Rightarrow> response option io" where
  "cancel_order E order_id =
     io_bind (case order_id of
                PStr oid \<Rightarrow> cancel_fetched E oid
              | _ \<Rightarrow> io_return None) (\<lambda>returned.
       case returned of
         Some res \<Rightarrow> io_return (Some res)
       | None \<Rightarrow>
           if is_dict order_id
           then io_bind (io_lift (getitem order_id ''id'')) (\<lambda>oid.
                  case oid of
                    PStr ident \<Rightarrow> cancel_fetched E ident
                  | _ \<Rightarrow> io_raise TypeError)
           else if \<not> is_str order_id \<or> \<not> is_dict order_id
           then io_raise (ValueError
                  ''Cancelling orders requires a valid order_id string or open order dictionary'')
           else io_raise (ValueError
                  (''Unable to cancel order ID: '' @ (case order_id of PStr oid \<Rightarrow> oid | _ \<Rightarrow> []))))"

section \<open>Crypto orders: \<^verbatim>\<open>place_order\<close>\<close>

text \<open>
  What \<^verbatim>\<open>CryptoTrader\<close> borrows. The modules \<^verbatim>\<open>crypto_endpoints\<close> (with its table
  \<^verbatim>\<open>crypto_pairs\<close>), \<^verbatim>\<open>quote\<close> and \<^verbatim>\<open>order\<close> are not part of the sources, and the
  \<^verbatim>\<open>trader\<close> object is whatever the constructor received: its \<^verbatim>\<open>_req_get\<close>,
  \<^verbatim>\<open>_req_post\<close> and \<^verbatim>\<open>_fprice\<close> are parameters (each may raise, an
  \<^verbatim>\<open>AttributeError\<close> when the object lacks the method). \<open>quote_ask\<close> is the
  attribute \<^verbatim>\<open>ask\<close> of the \<^verbatim>\<open>CryptoQuote\<close> built from a quote response, and
  \<open>uuid4_hex\<close> is the token \<^verbatim>\<open>uuid.uuid4().hex\<close> of this call.
\<close>

record crypto_env =
  crypto_pairs :: "string \<rightharpoonup> string"
  crypto_quotes_url :: "string \<Rightarrow> string"
  crypto_accounts_url :: string
  crypto_orders_url :: string
  trader_req_get :: "string \<Rightarrow> error + pyval"
  trader_req_post :: "string \<Rightarrow> (string \<times> pyval) list \<Rightarrow> error + pyval"
  trader_fprice :: "pynum \<Rightarrow> error + pyval"
  quote_ask :: "pyval \<Rightarrow> error + pynum"
  uuid4_hex :: string

definition c_req_get :: "crypto_env \<Rightarrow> string \<Rightarrow> pyval io" where
  "c_req_get C url tr = (trader_req_get C url, tr @ [Get url])"

definition c_req_post :: "crypto_env \<Rightarrow> string \<Rightarrow> (string \<times> pyval) list \<Rightarrow> pyval io" where
  "c_req_post C url data tr = (trader_req_post C url data, tr @ [Post (PStr url) (Some data)])"

text \<open>\<^verbatim>\<open>bool(x)\<close> for an argument that is \<^verbatim>\<open>None\<close> or a number, or \<^verbatim>\<open>None\<close> or a string.\<close>

definition num_truthy :: "pynum option \<Rightarrow> bool" where
  "num_truthy x = truthy (val_of_num_opt x)"

definition str_truthy :: "string option \<Rightarrow> bool" where
  "str_truthy x = truthy (val_of_str_opt x)"

text \<open>\<^verbatim>\<open>_crypto_pairs[symbol]\<close>.\<close>

definition pair_id :: "crypto_env \<Rightarrow> string \<Rightarrow> error + string" where
  "pair_id C symbol = (case crypto_pairs C symbol of None \<Rightarrow> Inl KeyError | Some i \<Rightarrow> Inr i)"

text \<open>\<^verbatim>\<open>CryptoTrader.quote\<close> (lines 26-29) followed by \<^verbatim>\<open>.ask\<close>.\<close>

definition crypto_quote_ask :: "crypto_env \<Rightarrow> string \<Rightarrow> pynum io" where
  "crypto_quote_ask C symbol =
     io_bind (io_lift (pair_id C (upper symbol))) (\<lambda>i.
     io_bind (c_req_get C (crypto_quotes_url C i)) (\<lambda>js.
     io_lift (quote_ask C js)))"

text \<open>\<^verbatim>\<open>CryptoTrader.account\<close> (lines 31-33).\<close>

definition crypto_account :: "crypto_env \<Rightarrow> pyval io" where
  "crypto_account C =
     io_bind (c_req_get C (crypto_accounts_url C)) (\<lambda>res.
     io_bind (io_lift (getitem res ''results'')) (\<lambda>results.
     io_lift (getitem0 results)))"

text \<open>Line 103: the price that was passed, or the live ask price when it is falsy.\<close>

definition resolve_crypto_price :: "crypto_env \<Rightarrow> string \<Rightarrow> pynum option \<Rightarrow> pynum io" where
  "resolve_crypto_price C symbol price =
     (case price of
        None \<Rightarrow> crypto_quote_ask C symbol
      | Some p \<Rightarrow> if \<not> num_truthy price then crypto_quote_ask C symbol else io_return p)"

text \<open>
  Lines 104-105: a falsy quantity is computed from a truthy \<^verbatim>\<open>price_quantity\<close> and
  written with eight decimals; otherwise \<^verbatim>\<open>quantity\<close> stays as passed.
\<close>

definition resolve_crypto_quantity ::
  "pynum option \<Rightarrow> pynum option \<Rightarrow> pynum \<Rightarrow> error + pyval" where
  "resolve_crypto_quantity quantity price_quantity price =
     (case price_quantity of
        None \<Rightarrow> Inr (val_of_num_opt quantity)
      | Some pq \<Rightarrow>
          if \<not> num_truthy quantity \<and> num_truthy price_quantity
          then ebind (num_truediv pq price) (\<lambda>x. Inr (PStr (format_f 8 x)))
          else Inr (val_of_num_opt quantity))"

text \<open>
  Lines 110-121: the dict of the eight fields, of which the comprehension keeps the
  truthy values.
\<close>

definition crypto_payload ::
  "string \<Rightarrow> string option \<Rightarrow> pyval \<Rightarrow> pyval \<Rightarrow> string \<Rightarrow> pyval \<Rightarrow> string \<Rightarrow> string
   \<Rightarrow> (string \<times> pyval) list" where
  "crypto_payload order side quantity account_id crypto_id price ref_id time_in_force =
     filter (\<lambda>kv. truthy (snd kv))
       [(''type'', PStr order),
        (''side'', val_of_str_opt side),
        (''quantity'', quantity),
        (''account_id'', account_id),
        (''currency_pair_id'', PStr crypto_id),
        (''price'', price),
        (''ref_id'', PStr ref_id),
        (''time_in_force'', PStr time_in_force)]"

text \<open>Line 102: \<^verbatim>\<open>gtc\<close> for a falsy \<^verbatim>\<open>time_in_force\<close>.\<close>

definition default_time_in_force :: "string option \<Rightarrow> string" where
  "default_time_in_force time_in_force =
     (case time_in_force of
        None \<Rightarrow> ''gtc''
      | Some tif \<Rightarrow> if \<not> str_truthy time_in_force then ''gtc'' else tif)"

text \<open>
  \<^verbatim>\<open>place_order\<close> up to line 121 (lines 90-121): the payload, with the falsy values
  dropped. The \<^verbatim>\<open>assert\<close> of line 97 raises \<^verbatim>\<open>AssertionError\<close>.
\<close>

definition place_order_payload ::
  "crypto_env \<Rightarrow> string \<Rightarrow> pynum option \<Rightarrow> pynum option \<Rightarrow> pynum option \<Rightarrow>
   string option \<Rightarrow> string option \<Rightarrow> (string \<times> pyval) list io" where
  "place_order_payload C symbol price_quantity quantity price side time_in_force =
     (if num_truthy quantity = num_truthy price_quantity then io_raise AssertionError
      else
        let symbol' = upper symbol;
            order = (if num_truthy price then ''limit'' else ''market'')
        in io_bind (io_lift (pair_id C symbol')) (\<lambda>crypto_id.
           let time_in_force' = default_time_in_force time_in_force
           in io_bind (resolve_crypto_price C symbol' price) (\<lambda>price1.
              io_bind (io_lift (resolve_crypto_quantity quantity price_quantity price1))
                (\<lambda>quantity'.
              io_bind (io_lift (trader_fprice C price1)) (\<lambda>price2.
              io_bind (crypto_account C) (\<lambda>account.
              io_bind (io_lift (getitem account ''id'')) (\<lambda>account_id.
              io_return
                (crypto_payload order side quantity' account_id crypto_id price2
                   (uuid4_hex C) time_in_force'))))))))"

text \<open>
  \<^verbatim>\<open>place_order\<close> (lines 90-124): the payload is posted (as its JSON text, which
  \<^verbatim>\<open>dumps\<close> derives from it) and the answer is what the \<^verbatim>\<open>CryptoOrder\<close> wraps.
\<close>

definition place_order ::
  "crypto_env \<Rightarrow> string \<Rightarrow> pynum option \<Rightarrow> pynum option \<Rightarrow> pynum option \<Rightarrow>
   string option \<Rightarrow> string option \<Rightarrow> pyval io" where
  "place_order C symbol price_quantity quantity price side time_in_force =
     io_bind (place_order_payload C symbol price_quantity quantity price side time_in_force)
       (\<lambda>payload. c_req_post C (crypto_orders_url C) payload)"


section \<open>Example environments\<close>

text \<open>A \<^verbatim>\<open>200\<close> response with a JSON body.\<close>

definition answer :: "pyval \<Rightarrow> error + response" where
  "answer v = Inr \<lparr> status_code = 200, json_body = Some v \<rparr>"

text \<open>A client that logged in: the header holds the bearer token.\<close>

definition logged_in :: trader where
  "logged_in =
     Trader_init\<lparr> headers := (headers Trader_init)(''Authorization'' \<mapsto> PStr ''Bearer abc''),
                  auth_token := PStr ''abc'' \<rparr>"

text \<open>
  A server whose instrument search answers with the list of the matching instrument
  records under \<^verbatim>\<open>results\<close>, so that \<^verbatim>\<open>instrument\<close> returns the record of AAPL, the
  JSON dict its docstring announces. The order \<^verbatim>\<open>abc\<close> has no \<^verbatim>\<open>cancel\<close> link.
\<close>

definition api_env :: env where
  "api_env =
     \<lparr> endpoints_quotes = ''/quotes/'',
       endpoints_instruments = ''/instruments/'',
       endpoints_orders = ''/orders/'',
       endpoints_logout = ''/oauth2/revoke_token/'',
       session_get = (\<lambda>url.
         if url = ''/quotes/?symbols=AAPL''
         then answer (PDict [(''symbol'', PStr ''AAPL''), (''bid_price'', PStr ''150.0000'')])
         else if url = ''/instruments/?symbol=AAPL''
         then answer (PDict [(''results'',
                PList [PDict [(''symbol'', PStr ''AAPL''),
                              (''url'', PStr ''/instruments/450/'')]])])
         else if url = ''/orders/abc''
         then answer (PDict [(''id'', PStr ''abc''), (''state'', PStr ''filled''),
                             (''cancel'', PNone)])
         else Inl TransportError),
       session_post = (\<lambda>url data. answer (PDict [(''state'', PStr ''queued'')])),
       get_account = Inr (PDict [(''url'', PStr ''/accounts/5QR/'')]) \<rparr>"

text \<open>
  A server whose search nests the matching records one level deeper, so that
  \<^verbatim>\<open>instrument\<close> returns a list of records and the loop of \<^verbatim>\<open>_submit_order\<close> visits
  records. Only against such an answer does a submission get past line 438.
\<close>

definition listed_env :: env where
  "listed_env =
     api_env\<lparr> session_get := (\<lambda>url.
       if url = ''/instruments/?symbol=AAPL''
       then answer (PDict [(''results'',
              PList [PList [PDict [(''symbol'', PStr ''MSFT''),
                                   (''url'', PStr ''/instruments/500/'')],
                            PDict [(''symbol'', PStr ''aapl''),
                                   (''url'', PStr ''/instruments/450/'')],
                            PDict [(''symbol'', PStr ''AAPL''),
                                   (''url'', PStr ''/instruments/451/'')]]])])
       else session_get api_env url) \<rparr>"

text \<open>
  The same server, used by the class as \<^verbatim>\<open>Trader.py\<close> has it: the class defines no
  \<^verbatim>\<open>get_account\<close>, so the call of line 499 raises \<^verbatim>\<open>AttributeError\<close>.
\<close>

definition plain_class_env :: env where
  "plain_class_env = listed_env\<lparr> get_account := Inl AttributeError \<rparr>"

text \<open>A server that answers every \<^verbatim>\<open>GET\<close> with \<^verbatim>\<open>401 Unauthorized\<close>.\<close>

definition unauthorized_env :: env where
  "unauthorized_env =
     api_env\<lparr> session_get := (\<lambda>url. Inr \<lparr> status_code = 401, json_body = None \<rparr>) \<rparr>"

text \<open>
  Modelled from the spec: \<^verbatim>\<open>_fprice\<close> of the trader, which is not in the sources. The
  spec says that it formats the price to the instrument's configured decimal precision;
  \<open>prec\<close> is that precision.
\<close>

definition fprice_spec :: "nat \<Rightarrow> pynum \<Rightarrow> error + pyval" where
  "fprice_spec prec price = ebind (py_float price) (\<lambda>x. Inr (PStr (format_f prec x)))"

text \<open>
  Modelled from the spec: the attribute \<^verbatim>\<open>ask\<close> of \<^verbatim>\<open>CryptoQuote\<close>, a class that is
  not in the sources. The spec calls it the live ask price of the quote; here it is the
  number the quote holds under \<^verbatim>\<open>ask_price\<close>.
\<close>

definition quote_ask_spec :: "pyval \<Rightarrow> error + pynum" where
  "quote_ask_spec js =
     ebind (getitem js ''ask_price'') (\<lambda>v.
       case v of PInt n \<Rightarrow> Inr (NInt n) | PFloat x \<Rightarrow> Inr (NFloat x) | _ \<Rightarrow> Inl TypeError)"

text \<open>The scenario of the spec: BTC is quoted with an ask price of 50000.\<close>

definition btc_env :: crypto_env where
  "btc_env =
     \<lparr> crypto_pairs = map_of [(''BTC'', ''3d961844''), (''ETH'', ''76637d50'')],
       crypto_quotes_url = (\<lambda>i. ''/marketdata/forex/quotes/'' @ i @ ''/''),
       crypto_accounts_url = ''/accounts/'',
       crypto_orders_url = ''/orders/'',
       trader_req_get = (\<lambda>url.
         if url = ''/marketdata/forex/quotes/3d961844/''
         then Inr (PDict [(''ask_price'', PFloat (Fin 50000)),
                          (''bid_price'', PFloat (Fin 49990))])
         else if url = ''/accounts/''
         then Inr (PDict [(''results'', PList [PDict [(''id'', PStr ''acct-1'')]])])
         else Inl TransportError),
       trader_req_post = (\<lambda>url data. Inr (PDict [(''state'', PStr ''unconfirmed'')])),
       trader_fprice = fprice_spec 2,
       quote_ask = quote_ask_spec,
       uuid4_hex = ''0f8fad5bd9cb469fa16570867728950e'' \<rparr>"


section \<open>Sequencing\<close>

lemma io_bind_Inr:
  "io_bind m f tr = (Inr y, tr') \<Longrightarrow> \<exists>x tr1. m tr = (Inr x, tr1) \<and> f x tr1 = (Inr y, tr')"
  by (auto simp: io_bind_def split: prod.splits sum.splits)

lemma io_lift_Inr: "io_lift r tr = (Inr x, tr') \<Longrightarrow> r = Inr x \<and> tr' = tr"
  by (simp add: io_lift_def)

lemma ebind_Inr: "ebind m f = Inr y \<Longrightarrow> \<exists>x. m = Inr x \<and> f x = Inr y"
  by (auto simp: ebind_def split: sum.splits)

section \<open>Instrument resolution\<close>

text \<open>
  The loop of \<^verbatim>\<open>_submit_order\<close> iterates over what \<^verbatim>\<open>instrument\<close> returns. When
  that is the record of an instrument (a non-empty dict), the loop visits its keys, and
  subscripting the first key with \<^verbatim>\<open>'symbol'\<close> raises a \<^verbatim>\<open>TypeError\<close>.
\<close>

lemma find_instrument_over_keys:
  "find_instrument symbol (map (\<lambda>kv. PStr (fst kv)) (kv # kvs)) = Inl TypeError"
  by (simp add: ebind_def)

text \<open>
  Over a list of instrument records the loop does select the URL of the first record
  whose symbol equals the requested one up to case, and leaves \<^verbatim>\<open>None\<close> when there is
  none.
\<close>

lemma find_instrument_first_match:
  "find_instrument symbol (map (\<lambda>(s, u). PDict [(''symbol'', PStr s), (''url'', u)]) recs)
     = Inr (case find (\<lambda>(s, u). upper s = upper symbol) recs of
              None \<Rightarrow> PNone
            | Some (s, u) \<Rightarrow> u)"
  by (induction recs) (auto simp: ebind_def)

text \<open>
  The requests of one order attempt, in order: at most the quote lookup, one instrument
  search, the account lookup and the \<^verbatim>\<open>POST\<close> of the order.
\<close>

lemma req_get_trace: "snd (req_get E url tr) = tr @ [Get url]"
  by (simp add: req_get_def io_bind_def do_get_def io_lift_def io_return_def
      split: sum.splits prod.splits)

lemma quote_trace:
  "snd (quote E (Some s) tr) = tr @ [Get (endpoints_quotes E @ ''?symbols='' @ s)]"
  using req_get_trace [of E "endpoints_quotes E @ ''?symbols='' @ s" tr]
  by (auto simp: quote_def io_bind_def io_lift_def split: sum.splits prod.splits)

lemma instrument_trace:
  "snd (instrument E s tr) = tr @ [Get (endpoints_instruments E @ ''?symbol='' @ s)]"
  using req_get_trace [of E "endpoints_instruments E @ ''?symbol='' @ s" tr]
  by (auto simp: instrument_def req_get_json_def io_bind_def io_lift_def
      split: sum.splits prod.splits)

lemma submit_order_lookup_trace:
  "snd (submit_order_lookup E t (Some s) tr) = tr \<or>
   snd (submit_order_lookup E t (Some s) tr)
     = tr @ [Get (endpoints_quotes E @ ''?symbols='' @ s)] \<or>
   snd (submit_order_lookup E t (Some s) tr)
     = tr @ [Get (endpoints_quotes E @ ''?symbols='' @ s),
             Get (endpoints_instruments E @ ''?symbol='' @ s)]"
  using quote_trace [of E s tr]
    instrument_trace [of E s "tr @ [Get (endpoints_quotes E @ ''?symbols='' @ s)]"]
  by (auto simp: submit_order_lookup_def io_bind_def io_lift_def io_raise_def io_return_def
      split: sum.splits prod.splits)

lemma submit_order_trace:
  "\<exists>calls rest payload.
     snd (submit_order E t (Some s) order_type time_in_force trigger price stop_price
            quantity side tr) = tr @ calls \<and>
     calls @ rest = [Get (endpoints_quotes E @ ''?symbols='' @ s),
                     Get (endpoints_instruments E @ ''?symbol='' @ s),
                     GetAccount,
                     Post (PStr (endpoints_orders E)) (Some payload)]"
proof -
  let ?q = "Get (endpoints_quotes E @ ''?symbols='' @ s)"
  let ?i = "Get (endpoints_instruments E @ ''?symbol='' @ s)"
  let ?l = "submit_order_lookup E t (Some s) tr"
  let ?so = "submit_order E t (Some s) order_type time_in_force trigger price stop_price
            quantity side tr"
  show ?thesis
  proof (cases "fst ?l")
    case (Inl e)
    then have "?so = (Inl e, snd ?l)"
      by (cases ?l) (simp add: submit_order_def submit_order_payload_def io_bind_def)
    with submit_order_lookup_trace [of E t s tr]
    have "snd ?so = tr @ [] \<or> snd ?so = tr @ [?q] \<or> snd ?so = tr @ [?q, ?i]"
      by auto
    then show ?thesis
      by (elim disjE) (rule exI, rule exI, rule exI, rule conjI, assumption, simp)+
  next
    case (Inr r)
    then obtain tr1 where l: "?l = (Inr r, tr1)" by (cases ?l) simp
    have "tr1 = tr @ [?q, ?i]"
      using l quote_trace [of E s tr] instrument_trace [of E s "tr @ [?q]"]
      by (auto simp: submit_order_lookup_def io_bind_def io_lift_def io_raise_def io_return_def
          split: sum.splits prod.splits if_splits)
    with l have "(\<exists>payload. snd ?so = tr @ [?q, ?i, GetAccount,
                    Post (PStr (endpoints_orders E)) (Some payload)]) \<or>
          snd ?so = tr @ [?q, ?i, GetAccount] \<or> snd ?so = tr @ [?q, ?i]"
      by (cases r)
        (auto simp: submit_order_def submit_order_payload_def io_bind_def io_lift_def
          io_return_def do_get_account_def do_post_def split: sum.splits prod.splits)
    then show ?thesis
      by (elim disjE exE) (rule exI, rule exI, rule exI, rule conjI, assumption, simp)+
  qed
qed

text \<open>
  C1 (instrument resolution selects the first result whose symbol matches, with one
  search per order attempt): a market buy of 10 AAPL, against a search that answers with
  the list of the matching records, makes one quote request and one instrument search
  and then raises \<^verbatim>\<open>TypeError\<close>; it selects no instrument URL although the record of
  AAPL is the result.
\<close>

theorem submit_order_instrument_record_type_error:
  "submit_order api_env logged_in (Some ''AAPL'') (Some ''market'') None (Some ''immediate'')
     None None (Some (NInt 10)) (Some ''buy'') []
   = (Inl TypeError, [Get ''/quotes/?symbols=AAPL'', Get ''/instruments/?symbol=AAPL''])"
  by code_simp

section \<open>Authentication\<close>

text \<open>A caller without the header is refused first: no request is sent.\<close>

lemma submit_order_requires_login:
  "\<not> is_logged_in t \<Longrightarrow>
   submit_order E t symbol order_type time_in_force trigger price stop_price quantity side tr
     = (Inl LoginRequired, tr)"
  by (simp add: submit_order_def submit_order_payload_def submit_order_lookup_def
      assert_logged_in_def io_bind_def io_lift_def)

text \<open>A logout that returns leaves the key in the headers, so the client counts as logged in.\<close>

lemma logout_keeps_authorization_key:
  "logout E t tr = (Inr res, t', tr') \<Longrightarrow> is_logged_in t'"
  by (auto simp: logout_def is_logged_in_def Let_def split: sum.splits error.splits)

text \<open>
  C5 (an unauthenticated caller is refused with AuthRequired, in particular after
  \<^verbatim>\<open>logout()\<close>): a fresh client is not logged in; after its \<^verbatim>\<open>logout()\<close> it counts
  as logged in, and its order is not refused: the quote request is sent, and the
  submission fails with the server's \<^verbatim>\<open>HTTPError\<close>.
\<close>

theorem submit_order_after_logout_not_refused:
  "\<not> is_logged_in Trader_init \<and>
   fst (logout unauthorized_env Trader_init []) =
     Inr \<lparr> status_code = 200, json_body = Some (PDict [(''state'', PStr ''queued'')]) \<rparr> \<and>
   is_logged_in (fst (snd (logout unauthorized_env Trader_init []))) \<and>
   submit_order unauthorized_env (fst (snd (logout unauthorized_env Trader_init [])))
     (Some ''AAPL'') (Some ''market'') None (Some ''immediate'') None None
     (Some (NInt 10)) (Some ''buy'') []
   = (Inl HTTPError, [Get ''/quotes/?symbols=AAPL''])"
  by code_simp

section \<open>Cancellation\<close>

text \<open>
  C6 (an order without a cancel action fails with NotCancellable): the order \<^verbatim>\<open>abc\<close>
  has no \<^verbatim>\<open>cancel\<close> link. Given as an order record, \<^verbatim>\<open>cancel_order\<close> fetches it and
  returns \<^verbatim>\<open>None\<close> without raising; given as an identifier, it raises the
  \<^verbatim>\<open>ValueError\<close> of an invalid argument, not the one of line 568.
\<close>

theorem cancel_order_without_link:
  "cancel_order api_env (PDict [(''id'', PStr ''abc'')]) [] = (Inr None, [Get ''/orders/abc'']) \<and>
   cancel_order api_env (PStr ''abc'') [] =
     (Inl (ValueError
        ''Cancelling orders requires a valid order_id string or open order dictionary''),
      [Get ''/orders/abc''])"
  by code_simp

text \<open>The record case on its own: the call returns \<^verbatim>\<open>None\<close> and raises nothing.\<close>

theorem cancel_order_without_link_witness:
  "fst (cancel_order api_env (PDict [(''id'', PStr ''abc'')]) []) = Inr None"
  using cancel_order_without_link by simp


section \<open>What a submission that reaches its payload has passed\<close>

lemma submit_order_lookup_url:
  "submit_order_lookup E t symbol tr = (Inr (bid, url), tr1) \<Longrightarrow> url \<noteq> PNone"
  by (auto simp: submit_order_lookup_def io_raise_def io_return_def
      dest!: io_bind_Inr io_lift_Inr split: option.splits if_splits)

lemma submit_order_payload_Inr:
  assumes "submit_order_payload E t symbol order_type time_in_force trigger price stop_price
             quantity side tr = (Inr payload, tr')"
  shows "\<exists>bid url f account account_url tr1.
           submit_order_lookup E t symbol tr = (Inr (bid, url), tr1) \<and>
           submit_order_validate bid symbol order_type time_in_force trigger price stop_price
             quantity side = Inr f \<and>
           get_account E = Inr account \<and> getitem account ''url'' = Inr account_url \<and>
           payload = build_payload account_url url f \<and> tr' = tr1 @ [GetAccount]"
  using assms
  by (auto simp: submit_order_payload_def io_return_def do_get_account_def
      dest!: io_bind_Inr io_lift_Inr split: prod.splits)

lemma check_order_type_Inr:
  "check_order_type ot = Inr u \<Longrightarrow> ot = ''market'' \<or> ot = ''limit''"
  by (auto simp: check_order_type_def split: if_splits)

lemma lower_market: "lower ''market'' = ''market''"
  by (simp add: lower_def lower_char_def)

lemma lower_limit: "lower ''limit'' = ''limit''"
  by (simp add: lower_def lower_char_def)

lemma submit_order_validate_Inr:
  assumes "submit_order_validate bid symbol order_type time_in_force trigger price stop_price
             quantity side = Inr f"
  shows "(f_order_type f = ''market'' \<or> f_order_type f = ''limit'') \<and>
         f_order_type f = lower (str_opt (infer_order_type order_type price stop_price)) \<and>
         f_time_in_force f = lower (str_opt time_in_force) \<and>
         f_trigger f = lower (str_opt trigger) \<and>
         f_symbol f = upper (str_opt symbol) \<and>
         (\<exists>sd. side = Some sd \<and> f_side f = lower sd) \<and>
         f_stop_price f = stop_price \<and>
         (stop_price \<noteq> None \<longrightarrow> f_trigger f = ''stop'') \<and>
         (f_order_type f = ''limit'' \<longrightarrow> (\<exists>x. f_price f = PFloat x)) \<and>
         (f_order_type f = ''market'' \<longrightarrow> price = None \<and> f_price f = bid) \<and>
         (\<exists>q. quantity = Some q \<and> py_int q = Inr (f_quantity f)) \<and> 0 < f_quantity f"
  using assms
  apply (cases side)
   apply (simp add: submit_order_validate_def)
  apply (simp add: submit_order_validate_def Let_def)
  apply (auto dest!: ebind_Inr check_order_type_Inr)
  apply (auto simp: check_limit_price_def check_stop_price_def check_stop_trigger_def
      check_price_present_def resolve_price_def resolve_quantity_def lower_market lower_limit
      dest!: ebind_Inr split: if_splits option.splits)
  done


section \<open>The fields of a payload\<close>

text \<open>
  Looking a key up in a dict literal filtered by value: the value of the key in the
  literal, when it passes the filter.
\<close>

lemma map_of_filter_snd:
  "distinct (map fst xs) \<Longrightarrow>
   map_of (filter (\<lambda>kv. P (snd kv)) xs) k
     = (case map_of xs k of None \<Rightarrow> None | Some v \<Rightarrow> if P v then Some v else None)"
proof (induction xs)
  case Nil
  then show ?case by simp
next
  case (Cons x xs)
  then show ?case
    by (cases x) (auto simp: map_of_eq_None_iff image_iff split: option.splits)
qed

lemma build_payload_lookup:
  "map_of (build_payload a u f) k
     = (case map_of [(''account'', a), (''instrument'', u), (''symbol'', PStr (f_symbol f)),
                     (''type'', PStr (f_order_type f)),
                     (''time_in_force'', PStr (f_time_in_force f)),
                     (''trigger'', PStr (f_trigger f)), (''price'', f_price f),
                     (''stop_price'', val_of_num_opt (f_stop_price f)),
                     (''quantity'', PInt (f_quantity f)), (''side'', PStr (f_side f))] k of
          None \<Rightarrow> None
        | Some v \<Rightarrow> if v \<noteq> PNone then Some v else None)"
  unfolding build_payload_def by (rule map_of_filter_snd) simp

lemma build_payload_fixed:
  "map_of (build_payload a u f) ''type'' = Some (PStr (f_order_type f))"
  "map_of (build_payload a u f) ''time_in_force'' = Some (PStr (f_time_in_force f))"
  "map_of (build_payload a u f) ''trigger'' = Some (PStr (f_trigger f))"
  "map_of (build_payload a u f) ''side'' = Some (PStr (f_side f))"
  "map_of (build_payload a u f) ''symbol'' = Some (PStr (f_symbol f))"
  "map_of (build_payload a u f) ''quantity'' = Some (PInt (f_quantity f))"
  by (simp_all add: build_payload_lookup)

lemma val_of_num_not_None: "val_of_num p \<noteq> PNone"
  by (cases p) simp_all

lemma build_payload_optional:
  "map_of (build_payload a u f) ''price'' = (if f_price f = PNone then None else Some (f_price f))"
  "map_of (build_payload a u f) ''stop_price'' =
     (case f_stop_price f of None \<Rightarrow> None | Some p \<Rightarrow> Some (val_of_num p))"
  "map_of (build_payload a u f) ''instrument'' = (if u = PNone then None else Some u)"
  "map_of (build_payload a u f) ''account'' = (if a = PNone then None else Some a)"
  by (simp_all add: build_payload_lookup val_of_num_opt_def val_of_num_not_None
      split: option.splits)

section \<open>Rejected combinations\<close>

lemma validate_limit_without_price:
  assumes "lower (str_opt (infer_order_type order_type None stop_price)) = ''limit''"
  shows "submit_order_validate bid symbol order_type time_in_force trigger None stop_price
           quantity (Some sd)
         = Inl (ValueError ''Limit order has no price in call to submit_order'')"
  using assms
  by (simp add: submit_order_validate_def Let_def ebind_def check_order_type_def
      check_limit_price_def)

lemma validate_stop_price_without_stop:
  assumes "lower (str_opt trigger) \<noteq> ''stop''"
  shows "\<exists>msg. submit_order_validate bid symbol order_type time_in_force trigger price (Some sp)
           quantity (Some sd) = Inl (ValueError msg)"
  using assms
  by (simp add: submit_order_validate_def Let_def ebind_def check_order_type_def
      check_limit_price_def check_stop_price_def check_stop_trigger_def split: option.splits)

lemma submit_order_validation_error:
  assumes "submit_order_lookup E t symbol tr = (Inr (bid, url), tr1)"
    and "submit_order_validate bid symbol order_type time_in_force trigger price stop_price
           quantity side = Inl e"
  shows "submit_order E t symbol order_type time_in_force trigger price stop_price quantity side tr
         = (Inl e, tr1)"
  using assms
  by (simp add: submit_order_def submit_order_payload_def io_bind_def io_lift_def)


text \<open>
  C3: a submission that reaches the emission of its payload never emits a limit order
  without a price, nor a stop price with a trigger other than \<^verbatim>\<open>stop\<close>. Both
  combinations are refused with a \<^verbatim>\<open>ValueError\<close> once the lookups of lines 423-438
  have succeeded and a side was passed, before the account is read and anything is
  posted: the trace is the one of the lookups.
\<close>

theorem payload_price_and_stop_price_consistent:
  "(submit_order_payload E t symbol order_type time_in_force trigger price stop_price
      quantity side tr = (Inr payload, tr') \<longrightarrow>
      \<not> (map_of payload ''type'' = Some (PStr ''limit'') \<and> map_of payload ''price'' = None) \<and>
      \<not> (map_of payload ''stop_price'' \<noteq> None \<and>
         map_of payload ''trigger'' \<noteq> Some (PStr ''stop''))) \<and>
   (submit_order_lookup E t symbol tr = (Inr r, tr1) \<and> side \<noteq> None \<and>
    lower (str_opt (infer_order_type order_type price stop_price)) = ''limit'' \<and>
    price = None \<longrightarrow>
      submit_order E t symbol order_type time_in_force trigger price stop_price quantity side tr
        = (Inl (ValueError ''Limit order has no price in call to submit_order''), tr1)) \<and>
   (submit_order_lookup E t symbol tr = (Inr r, tr1) \<and> side \<noteq> None \<and>
    stop_price \<noteq> None \<and> lower (str_opt trigger) \<noteq> ''stop'' \<longrightarrow>
      (\<exists>msg. submit_order E t symbol order_type time_in_force trigger price stop_price
                quantity side tr = (Inl (ValueError msg), tr1)))"
proof (intro conjI impI)
  assume a: "submit_order_payload E t symbol order_type time_in_force trigger price stop_price
      quantity side tr = (Inr payload, tr')"
  from submit_order_payload_Inr [OF a] obtain bid url f account_url where
    v: "submit_order_validate bid symbol order_type time_in_force trigger price stop_price
             quantity side = Inr f"
    and p: "payload = build_payload account_url url f"
    by blast
  note f = submit_order_validate_Inr [OF v]
  show "\<not> (map_of payload ''type'' = Some (PStr ''limit'') \<and> map_of payload ''price'' = None)"
    using f by (auto simp: p build_payload_fixed build_payload_optional)
  show "\<not> (map_of payload ''stop_price'' \<noteq> None \<and>
          map_of payload ''trigger'' \<noteq> Some (PStr ''stop''))"
    using f by (auto simp: p build_payload_fixed build_payload_optional split: option.splits)
next
  assume a: "submit_order_lookup E t symbol tr = (Inr r, tr1) \<and> side \<noteq> None \<and>
    lower (str_opt (infer_order_type order_type price stop_price)) = ''limit'' \<and> price = None"
  then obtain sd where sd: "side = Some sd" by auto
  from a have pr: "price = None"
    and lim: "lower (str_opt (infer_order_type order_type None stop_price)) = ''limit''"
    by auto
  obtain bid url where r: "r = (bid, url)" by (cases r)
  from a have l: "submit_order_lookup E t symbol tr = (Inr (bid, url), tr1)" by (simp add: r)
  show "submit_order E t symbol order_type time_in_force trigger price stop_price quantity side tr
        = (Inl (ValueError ''Limit order has no price in call to submit_order''), tr1)"
    unfolding pr sd
    by (rule submit_order_validation_error [OF l validate_limit_without_price [OF lim]])
next
  assume a: "submit_order_lookup E t symbol tr = (Inr r, tr1) \<and> side \<noteq> None \<and>
    stop_price \<noteq> None \<and> lower (str_opt trigger) \<noteq> ''stop''"
  then obtain sd sp where sd: "side = Some sd" and sp: "stop_price = Some sp" by auto
  from a have ns: "lower (str_opt trigger) \<noteq> ''stop''" by simp
  obtain bid url where r: "r = (bid, url)" by (cases r)
  from a have l: "submit_order_lookup E t symbol tr = (Inr (bid, url), tr1)" by (simp add: r)
  from validate_stop_price_without_stop [OF ns]
  obtain msg where "submit_order_validate bid symbol order_type time_in_force trigger price
      (Some sp) quantity (Some sd) = Inl (ValueError msg)"
    by blast
  from submit_order_validation_error [OF l this [folded sd sp]]
  show "\<exists>msg. submit_order E t symbol order_type time_in_force trigger price stop_price
                quantity side tr = (Inl (ValueError msg), tr1)"
    by blast
qed


text \<open>
  The theorem at work: a stop-limit sell of 5 AAPL at 150 with a stop at 145 reaches its
  payload; a limit order without a price, and a stop price with an immediate trigger,
  are refused after the two lookups.
\<close>

theorem payload_price_and_stop_price_consistent_witness:
  "submit_order_payload listed_env logged_in (Some ''AAPL'') (Some ''limit'') None
     (Some ''stop'') (Some (NFloat (Fin 150))) (Some (NFloat (Fin 145))) (Some (NInt 5))
     (Some ''sell'') []
   = (Inr [(''account'', PStr ''/accounts/5QR/''), (''instrument'', PStr ''/instruments/450/''),
           (''symbol'', PStr ''AAPL''), (''type'', PStr ''limit''),
           (''time_in_force'', PStr ''none''), (''trigger'', PStr ''stop''),
           (''price'', PFloat (Fin 150)), (''stop_price'', PFloat (Fin 145)),
           (''quantity'', PInt 5), (''side'', PStr ''sell'')],
      [Get ''/quotes/?symbols=AAPL'', Get ''/instruments/?symbol=AAPL'', GetAccount]) \<and>
   \<not> (map_of [(''account'', PStr ''/accounts/5QR/''), (''instrument'', PStr ''/instruments/450/''),
           (''symbol'', PStr ''AAPL''), (''type'', PStr ''limit''),
           (''time_in_force'', PStr ''none''), (''trigger'', PStr ''stop''),
           (''price'', PFloat (Fin 150)), (''stop_price'', PFloat (Fin 145)),
           (''quantity'', PInt 5), (''side'', PStr ''sell'')] ''type'' = Some (PStr ''limit'') \<and>
      map_of [(''account'', PStr ''/accounts/5QR/''), (''instrument'', PStr ''/instruments/450/''),
           (''symbol'', PStr ''AAPL''), (''type'', PStr ''limit''),
           (''time_in_force'', PStr ''none''), (''trigger'', PStr ''stop''),
           (''price'', PFloat (Fin 150)), (''stop_price'', PFloat (Fin 145)),
           (''quantity'', PInt 5), (''side'', PStr ''sell'')] ''price'' = None) \<and>
   submit_order_lookup listed_env logged_in (Some ''AAPL'') []
   = (Inr (PStr ''150.0000'', PStr ''/instruments/450/''),
      [Get ''/quotes/?symbols=AAPL'', Get ''/instruments/?symbol=AAPL'']) \<and>
   submit_order listed_env logged_in (Some ''AAPL'') (Some ''LIMIT'') None (Some ''immediate'')
     None None (Some (NInt 5)) (Some ''sell'') []
   = (Inl (ValueError ''Limit order has no price in call to submit_order''),
      [Get ''/quotes/?symbols=AAPL'', Get ''/instruments/?symbol=AAPL'']) \<and>
   (\<exists>msg. submit_order listed_env logged_in (Some ''AAPL'') (Some ''market'') None
      (Some ''immediate'') None (Some (NFloat (Fin 145))) (Some (NInt 5)) (Some ''sell'') []
    = (Inl (ValueError msg),
       [Get ''/quotes/?symbols=AAPL'', Get ''/instruments/?symbol=AAPL'']))"
proof -
  have p: "submit_order_payload listed_env logged_in (Some ''AAPL'') (Some ''limit'') None
     (Some ''stop'') (Some (NFloat (Fin 150))) (Some (NFloat (Fin 145))) (Some (NInt 5))
     (Some ''sell'') []
   = (Inr [(''account'', PStr ''/accounts/5QR/''), (''instrument'', PStr ''/instruments/450/''),
           (''symbol'', PStr ''AAPL''), (''type'', PStr ''limit''),
           (''time_in_force'', PStr ''none''), (''trigger'', PStr ''stop''),
           (''price'', PFloat (Fin 150)), (''stop_price'', PFloat (Fin 145)),
           (''quantity'', PInt 5), (''side'', PStr ''sell'')],
      [Get ''/quotes/?symbols=AAPL'', Get ''/instruments/?symbol=AAPL'', GetAccount])"
    by code_simp
  have l: "submit_order_lookup listed_env logged_in (Some ''AAPL'') []
   = (Inr (PStr ''150.0000'', PStr ''/instruments/450/''),
      [Get ''/quotes/?symbols=AAPL'', Get ''/instruments/?symbol=AAPL''])"
    by code_simp
  have lim: "lower (str_opt (infer_order_type (Some ''LIMIT'') None None)) = ''limit''"
    by code_simp
  have ns: "lower (str_opt (Some ''immediate'')) \<noteq> ''stop''"
    by code_simp
  note main = payload_price_and_stop_price_consistent
  have a: "submit_order listed_env logged_in (Some ''AAPL'') (Some ''LIMIT'') None
     (Some ''immediate'') None None (Some (NInt 5)) (Some ''sell'') []
   = (Inl (ValueError ''Limit order has no price in call to submit_order''),
      [Get ''/quotes/?symbols=AAPL'', Get ''/instruments/?symbol=AAPL''])"
    using main [THEN conjunct2, THEN conjunct1, rule_format, of listed_env logged_in
        "Some ''AAPL''" "[]" _ _ "Some ''sell''" "Some ''LIMIT''" None None] l lim
    by simp
  have b: "\<exists>msg. submit_order listed_env logged_in (Some ''AAPL'') (Some ''market'') None
      (Some ''immediate'') None (Some (NFloat (Fin 145))) (Some (NInt 5)) (Some ''sell'') []
    = (Inl (ValueError msg),
       [Get ''/quotes/?symbols=AAPL'', Get ''/instruments/?symbol=AAPL''])"
    using main [THEN conjunct2, THEN conjunct2, rule_format, of listed_env logged_in
        "Some ''AAPL''" "[]" _ _ "Some ''sell''" "Some (NFloat (Fin 145))" "Some ''immediate''"] l ns
    by simp
  note c = main [THEN conjunct1, rule_format, OF p, THEN conjunct1]
  from p c l a b show ?thesis by blast
qed


section \<open>Normalised fields in the payload\<close>

lemma build_payload_keys:
  "fst ` set (build_payload a u f) \<subseteq>
     {''account'', ''instrument'', ''symbol'', ''type'', ''time_in_force'', ''trigger'',
      ''price'', ''stop_price'', ''quantity'', ''side''}"
  unfolding build_payload_def by auto

lemma lower_None: "lower (str_opt None) = ''none''"
  by (simp add: lower_def lower_char_def str_opt_def)

text \<open>
  C10: in a submission that reaches the emission of its payload, \<^verbatim>\<open>time_in_force\<close>
  and \<^verbatim>\<open>trigger\<close> are the lowercased \<^verbatim>\<open>str()\<close> of the arguments, so an argument
  left at \<^verbatim>\<open>None\<close> is sent as the string \<^verbatim>\<open>none\<close>. The fields \<^verbatim>\<open>type\<close>,
  \<^verbatim>\<open>time_in_force\<close>, \<^verbatim>\<open>trigger\<close> and \<^verbatim>\<open>side\<close> (with \<^verbatim>\<open>instrument\<close>,
  \<^verbatim>\<open>symbol\<close> and \<^verbatim>\<open>quantity\<close>) are always present; only \<^verbatim>\<open>account\<close>,
  \<^verbatim>\<open>price\<close> and \<^verbatim>\<open>stop_price\<close> can be missing, \<^verbatim>\<open>stop_price\<close> exactly when
  none was passed and \<^verbatim>\<open>price\<close> only when none was passed.
\<close>

theorem unset_fields_are_stringified:
  "submit_order_payload E t symbol order_type time_in_force trigger price stop_price
      quantity side tr = (Inr payload, tr') \<longrightarrow>
     map_of payload ''time_in_force'' = Some (PStr (lower (str_opt time_in_force))) \<and>
     map_of payload ''trigger'' = Some (PStr (lower (str_opt trigger))) \<and>
     (time_in_force = None \<longrightarrow> map_of payload ''time_in_force'' = Some (PStr ''none'')) \<and>
     (trigger = None \<longrightarrow> map_of payload ''trigger'' = Some (PStr ''none'')) \<and>
     (\<exists>ot. map_of payload ''type'' = Some (PStr ot)) \<and>
     (\<exists>sd. map_of payload ''side'' = Some (PStr sd)) \<and>
     {''instrument'', ''symbol'', ''type'', ''time_in_force'', ''trigger'', ''quantity'',
      ''side''} \<subseteq> dom (map_of payload) \<and>
     dom (map_of payload) \<subseteq>
       {''account'', ''instrument'', ''symbol'', ''type'', ''time_in_force'', ''trigger'',
        ''price'', ''stop_price'', ''quantity'', ''side''} \<and>
     (map_of payload ''stop_price'' = None \<longleftrightarrow> stop_price = None) \<and>
     (map_of payload ''price'' = None \<longrightarrow> price = None)"
proof
  assume a: "submit_order_payload E t symbol order_type time_in_force trigger price stop_price
      quantity side tr = (Inr payload, tr')"
  from submit_order_payload_Inr [OF a] obtain bid url f account_url tr1 where
    l: "submit_order_lookup E t symbol tr = (Inr (bid, url), tr1)"
    and v: "submit_order_validate bid symbol order_type time_in_force trigger price stop_price
             quantity side = Inr f"
    and p: "payload = build_payload account_url url f"
    by blast
  note f = submit_order_validate_Inr [OF v]
  note u = submit_order_lookup_url [OF l]
  have tif: "map_of payload ''time_in_force'' = Some (PStr (lower (str_opt time_in_force)))"
    using f by (simp add: p build_payload_fixed)
  have trg: "map_of payload ''trigger'' = Some (PStr (lower (str_opt trigger)))"
    using f by (simp add: p build_payload_fixed)
  have ot: "\<exists>ot. map_of payload ''type'' = Some (PStr ot)"
    by (simp add: p build_payload_fixed)
  have sd: "\<exists>sd. map_of payload ''side'' = Some (PStr sd)"
    by (simp add: p build_payload_fixed)
  have always: "{''instrument'', ''symbol'', ''type'', ''time_in_force'', ''trigger'',
      ''quantity'', ''side''} \<subseteq> dom (map_of payload)"
    using u by (simp add: p domIff build_payload_fixed build_payload_optional)
  have only: "dom (map_of payload) \<subseteq>
       {''account'', ''instrument'', ''symbol'', ''type'', ''time_in_force'', ''trigger'',
        ''price'', ''stop_price'', ''quantity'', ''side''}"
    unfolding p dom_map_of_conv_image_fst by (rule build_payload_keys)
  have stop: "map_of payload ''stop_price'' = None \<longleftrightarrow> stop_price = None"
    using f by (simp add: p build_payload_optional split: option.splits)
  have pr: "map_of payload ''price'' = None \<longrightarrow> price = None"
    using f by (auto simp: p build_payload_optional split: if_splits)
  from tif trg ot sd always only stop pr
  show "map_of payload ''time_in_force'' = Some (PStr (lower (str_opt time_in_force))) \<and>
     map_of payload ''trigger'' = Some (PStr (lower (str_opt trigger))) \<and>
     (time_in_force = None \<longrightarrow> map_of payload ''time_in_force'' = Some (PStr ''none'')) \<and>
     (trigger = None \<longrightarrow> map_of payload ''trigger'' = Some (PStr ''none'')) \<and>
     (\<exists>ot. map_of payload ''type'' = Some (PStr ot)) \<and>
     (\<exists>sd. map_of payload ''side'' = Some (PStr sd)) \<and>
     {''instrument'', ''symbol'', ''type'', ''time_in_force'', ''trigger'', ''quantity'',
      ''side''} \<subseteq> dom (map_of payload) \<and>
     dom (map_of payload) \<subseteq>
       {''account'', ''instrument'', ''symbol'', ''type'', ''time_in_force'', ''trigger'',
        ''price'', ''stop_price'', ''quantity'', ''side''} \<and>
     (map_of payload ''stop_price'' = None \<longleftrightarrow> stop_price = None) \<and>
     (map_of payload ''price'' = None \<longrightarrow> price = None)"
    using lower_None by (intro conjI impI) simp_all
qed

text \<open>
  The theorem at work, on the scenario of the spec: a buy of 10 AAPL with nothing else
  passed is a market order at the bid price, without a \<^verbatim>\<open>stop_price\<close> and with
  \<^verbatim>\<open>none\<close> for the two unset fields.
\<close>

theorem unset_fields_are_stringified_witness:
  "submit_order_payload listed_env logged_in (Some ''AAPL'') None None None None None
     (Some (NInt 10)) (Some ''buy'') []
   = (Inr [(''account'', PStr ''/accounts/5QR/''), (''instrument'', PStr ''/instruments/450/''),
           (''symbol'', PStr ''AAPL''), (''type'', PStr ''market''),
           (''time_in_force'', PStr ''none''), (''trigger'', PStr ''none''),
           (''price'', PStr ''150.0000''), (''quantity'', PInt 10), (''side'', PStr ''buy'')],
      [Get ''/quotes/?symbols=AAPL'', Get ''/instruments/?symbol=AAPL'', GetAccount]) \<and>
   map_of [(''account'', PStr ''/accounts/5QR/''), (''instrument'', PStr ''/instruments/450/''),
           (''symbol'', PStr ''AAPL''), (''type'', PStr ''market''),
           (''time_in_force'', PStr ''none''), (''trigger'', PStr ''none''),
           (''price'', PStr ''150.0000''), (''quantity'', PInt 10), (''side'', PStr ''buy'')]
     ''time_in_force'' = Some (PStr ''none'') \<and>
   map_of [(''account'', PStr ''/accounts/5QR/''), (''instrument'', PStr ''/instruments/450/''),
           (''symbol'', PStr ''AAPL''), (''type'', PStr ''market''),
           (''time_in_force'', PStr ''none''), (''trigger'', PStr ''none''),
           (''price'', PStr ''150.0000''), (''quantity'', PInt 10), (''side'', PStr ''buy'')]
     ''trigger'' = Some (PStr ''none'')"
proof -
  have p: "submit_order_payload listed_env logged_in (Some ''AAPL'') None None None None None
     (Some (NInt 10)) (Some ''buy'') []
   = (Inr [(''account'', PStr ''/accounts/5QR/''), (''instrument'', PStr ''/instruments/450/''),
           (''symbol'', PStr ''AAPL''), (''type'', PStr ''market''),
           (''time_in_force'', PStr ''none''), (''trigger'', PStr ''none''),
           (''price'', PStr ''150.0000''), (''quantity'', PInt 10), (''side'', PStr ''buy'')],
      [Get ''/quotes/?symbols=AAPL'', Get ''/instruments/?symbol=AAPL'', GetAccount])"
    by code_simp
  note c = unset_fields_are_stringified [rule_format, OF p]
  from c have "map_of [(''account'', PStr ''/accounts/5QR/''),
           (''instrument'', PStr ''/instruments/450/''),
           (''symbol'', PStr ''AAPL''), (''type'', PStr ''market''),
           (''time_in_force'', PStr ''none''), (''trigger'', PStr ''none''),
           (''price'', PStr ''150.0000''), (''quantity'', PInt 10), (''side'', PStr ''buy'')]
     ''time_in_force'' = Some (PStr ''none'')"
    by blast
  moreover from c have "map_of [(''account'', PStr ''/accounts/5QR/''),
           (''instrument'', PStr ''/instruments/450/''),
           (''symbol'', PStr ''AAPL''), (''type'', PStr ''market''),
           (''time_in_force'', PStr ''none''), (''trigger'', PStr ''none''),
           (''price'', PStr ''150.0000''), (''quantity'', PInt 10), (''side'', PStr ''buy'')]
     ''trigger'' = Some (PStr ''none'')"
    by blast
  ultimately show ?thesis using p by blast
qed


section \<open>The inferred order type\<close>

lemma lower_inferred_limit:
  "lower (str_opt (infer_order_type None None (Some sp))) = ''limit''"
  by (simp add: infer_order_type_def str_opt_def lower_limit)

text \<open>
  C2: with \<^verbatim>\<open>order_type\<close> and \<^verbatim>\<open>price\<close> both unset, lines 446-450 set the order type
  to \<^verbatim>\<open>market\<close> when \<^verbatim>\<open>stop_price\<close> is unset and to \<^verbatim>\<open>limit\<close> when it is set.
  In the first case a payload that is emitted has the type \<^verbatim>\<open>market\<close>; in the second
  the inferred limit order has no price, so once the lookups have succeeded and a side
  was passed the submission ends with the \<^verbatim>\<open>ValueError\<close> of a limit order.
\<close>

theorem order_type_inferred_when_unset:
  "infer_order_type None None stop_price
     = Some (if stop_price = None then ''market'' else ''limit'') \<and>
   (submit_order_payload E t symbol None time_in_force trigger None None quantity side tr
      = (Inr payload, tr') \<longrightarrow>
    map_of payload ''type'' = Some (PStr ''market'')) \<and>
   (stop_price \<noteq> None \<and> submit_order_lookup E t symbol tr = (Inr r, tr1) \<and> side \<noteq> None
      \<longrightarrow>
    submit_order E t symbol None time_in_force trigger None stop_price quantity side tr
      = (Inl (ValueError ''Limit order has no price in call to submit_order''), tr1))"
proof (intro conjI impI)
  show "infer_order_type None None stop_price
     = Some (if stop_price = None then ''market'' else ''limit'')"
    by (simp add: infer_order_type_def)
next
  assume a: "submit_order_payload E t symbol None time_in_force trigger None None quantity
      side tr = (Inr payload, tr')"
  from submit_order_payload_Inr [OF a] obtain bid url f account_url where
    v: "submit_order_validate bid symbol None time_in_force trigger None None quantity side
          = Inr f"
    and p: "payload = build_payload account_url url f"
    by blast
  from submit_order_validate_Inr [OF v]
  have "f_order_type f = lower (str_opt (infer_order_type None None None))"
    by blast
  then have "f_order_type f = ''market''"
    by (simp add: infer_order_type_def str_opt_def lower_market)
  then show "map_of payload ''type'' = Some (PStr ''market'')"
    by (simp add: p build_payload_fixed)
next
  assume a: "stop_price \<noteq> None \<and> submit_order_lookup E t symbol tr = (Inr r, tr1) \<and>
    side \<noteq> None"
  then obtain sd sp where sd: "side = Some sd" and sp: "stop_price = Some sp" by auto
  obtain bid url where r: "r = (bid, url)" by (cases r)
  from a have l: "submit_order_lookup E t symbol tr = (Inr (bid, url), tr1)" by (simp add: r)
  show "submit_order E t symbol None time_in_force trigger None stop_price quantity side tr
      = (Inl (ValueError ''Limit order has no price in call to submit_order''), tr1)"
    unfolding sd sp
    by (rule submit_order_validation_error
        [OF l validate_limit_without_price [OF lower_inferred_limit]])
qed

text \<open>
  The theorem at work: a sell of 3 AAPL with nothing else passed is emitted as a market
  order; the same order with a stop price of 145 is inferred to be a limit order and
  refused for its missing price.
\<close>

theorem order_type_inferred_when_unset_witness:
  "submit_order_payload listed_env logged_in (Some ''AAPL'') None (Some ''GFD'') None None None
     (Some (NInt 3)) (Some ''sell'') []
   = (Inr [(''account'', PStr ''/accounts/5QR/''), (''instrument'', PStr ''/instruments/450/''),
           (''symbol'', PStr ''AAPL''), (''type'', PStr ''market''),
           (''time_in_force'', PStr ''gfd''), (''trigger'', PStr ''none''),
           (''price'', PStr ''150.0000''), (''quantity'', PInt 3), (''side'', PStr ''sell'')],
      [Get ''/quotes/?symbols=AAPL'', Get ''/instruments/?symbol=AAPL'', GetAccount]) \<and>
   map_of [(''account'', PStr ''/accounts/5QR/''), (''instrument'', PStr ''/instruments/450/''),
           (''symbol'', PStr ''AAPL''), (''type'', PStr ''market''),
           (''time_in_force'', PStr ''gfd''), (''trigger'', PStr ''none''),
           (''price'', PStr ''150.0000''), (''quantity'', PInt 3), (''side'', PStr ''sell'')] ''type'' = Some (PStr ''market'') \<and>
   submit_order_lookup listed_env logged_in (Some ''AAPL'') []
   = (Inr (PStr ''150.0000'', PStr ''/instruments/450/''),
      [Get ''/quotes/?symbols=AAPL'', Get ''/instruments/?symbol=AAPL'']) \<and>
   submit_order listed_env logged_in (Some ''AAPL'') None None (Some ''stop'') None
     (Some (NFloat (Fin 145))) (Some (NInt 3)) (Some ''sell'') []
   = (Inl (ValueError ''Limit order has no price in call to submit_order''),
      [Get ''/quotes/?symbols=AAPL'', Get ''/instruments/?symbol=AAPL''])"
proof -
  have p: "submit_order_payload listed_env logged_in (Some ''AAPL'') None (Some ''GFD'') None
     None None (Some (NInt 3)) (Some ''sell'') []
   = (Inr [(''account'', PStr ''/accounts/5QR/''), (''instrument'', PStr ''/instruments/450/''),
           (''symbol'', PStr ''AAPL''), (''type'', PStr ''market''),
           (''time_in_force'', PStr ''gfd''), (''trigger'', PStr ''none''),
           (''price'', PStr ''150.0000''), (''quantity'', PInt 3), (''side'', PStr ''sell'')],
      [Get ''/quotes/?symbols=AAPL'', Get ''/instruments/?symbol=AAPL'', GetAccount])"
    by code_simp
  have l: "submit_order_lookup listed_env logged_in (Some ''AAPL'') []
   = (Inr (PStr ''150.0000'', PStr ''/instruments/450/''),
      [Get ''/quotes/?symbols=AAPL'', Get ''/instruments/?symbol=AAPL''])"
    by code_simp
  note main = order_type_inferred_when_unset
  note a = main [THEN conjunct2, THEN conjunct1, rule_format, OF p]
  have b: "submit_order listed_env logged_in (Some ''AAPL'') None None (Some ''stop'') None
     (Some (NFloat (Fin 145))) (Some (NInt 3)) (Some ''sell'') []
   = (Inl (ValueError ''Limit order has no price in call to submit_order''),
      [Get ''/quotes/?symbols=AAPL'', Get ''/instruments/?symbol=AAPL''])"
    using main [THEN conjunct2, THEN conjunct2, rule_format, of "Some (NFloat (Fin 145))"
        listed_env logged_in "Some ''AAPL''" "[]" _ _ "Some ''sell''"] l
    by simp
  from p a l b show ?thesis by blast
qed


section \<open>The quantity\<close>

lemma validate_other_quantity:
  assumes "submit_order_validate bid symbol order_type time_in_force trigger price stop_price
             (Some (NInt 1)) side = Inr f"
  shows "submit_order_validate bid symbol order_type time_in_force trigger price stop_price
           quantity side
         = ebind (resolve_quantity quantity) (\<lambda>n. Inr (f\<lparr>f_quantity := n\<rparr>))"
  using assms
  by (cases side)
    (auto simp: submit_order_validate_def Let_def ebind_def split: sum.splits)

lemma trunc_rat_le_zero: "r < 1 \<Longrightarrow> trunc_rat r \<le> 0"
  unfolding trunc_rat_def by (auto simp: floor_le_iff le_floor_iff) 

lemma trunc_rat_positive: "1 \<le> r \<Longrightarrow> 0 < trunc_rat r"
  unfolding trunc_rat_def by (auto simp: less_floor_iff)

lemma resolve_quantity_rejects:
  "resolve_quantity None = Inl (ValueError ''No quantity specified in call to submit_order'')"
  "n \<le> 0 \<Longrightarrow> resolve_quantity (Some (NInt n))
     = Inl (ValueError ''Quantity must be positive number in call to submit_order'')"
  "r < 1 \<Longrightarrow> resolve_quantity (Some (NFloat (Fin r)))
     = Inl (ValueError ''Quantity must be positive number in call to submit_order'')"
  "resolve_quantity (Some (NFloat NegZero))
     = Inl (ValueError ''Quantity must be positive number in call to submit_order'')"
  "resolve_quantity (Some (NFloat NaN))
     = Inl (ValueError ''cannot convert float NaN to integer'')"
  by (simp_all add: resolve_quantity_def ebind_def trunc_rat_le_zero)

lemma resolve_quantity_accepts:
  "0 < n \<Longrightarrow> resolve_quantity (Some (NInt n)) = Inr n"
  "1 \<le> r \<Longrightarrow> resolve_quantity (Some (NFloat (Fin r))) = Inr (trunc_rat r)"
  using trunc_rat_positive [of r]
  by (simp_all add: resolve_quantity_def ebind_def)

lemma resolve_quantity_overflow:
  "resolve_quantity (Some (NFloat PosInf)) = Inl OverflowError"
  "resolve_quantity (Some (NFloat NegInf)) = Inl OverflowError"
  by (simp_all add: resolve_quantity_def ebind_def)

text \<open>
  C4, as the code has it: the quantity is converted by \<^verbatim>\<open>int()\<close>, which truncates
  toward zero, before it is compared with zero (lines 488-494). For an order whose other
  fields are valid (the lookups of lines 423-438 succeed and the checks pass for one
  share), the submission is refused with a \<^verbatim>\<open>ValueError\<close>, right after the lookups,
  when the quantity is absent, an integer that is zero or negative, a finite float below
  one, or the NaN. Every positive integer and every finite float of one or more passes
  the checks, the float as its truncation; an infinite quantity raises
  \<^verbatim>\<open>OverflowError\<close>.
\<close>

theorem quantity_below_one_rejected:
  assumes "submit_order_lookup E t symbol tr = (Inr (bid, url), tr1)"
    and "submit_order_validate bid symbol order_type time_in_force trigger price stop_price
           (Some (NInt 1)) side = Inr f"
  shows "submit_order E t symbol order_type time_in_force trigger price stop_price None side tr
         = (Inl (ValueError ''No quantity specified in call to submit_order''), tr1) \<and>
         (\<forall>n. n \<le> 0 \<longrightarrow>
            submit_order E t symbol order_type time_in_force trigger price stop_price
              (Some (NInt n)) side tr
            = (Inl (ValueError ''Quantity must be positive number in call to submit_order''),
               tr1)) \<and>
         (\<forall>r. r < 1 \<longrightarrow>
            submit_order E t symbol order_type time_in_force trigger price stop_price
              (Some (NFloat (Fin r))) side tr
            = (Inl (ValueError ''Quantity must be positive number in call to submit_order''),
               tr1)) \<and>
         submit_order E t symbol order_type time_in_force trigger price stop_price
           (Some (NFloat NegZero)) side tr
         = (Inl (ValueError ''Quantity must be positive number in call to submit_order''),
            tr1) \<and>
         submit_order E t symbol order_type time_in_force trigger price stop_price
           (Some (NFloat NaN)) side tr
         = (Inl (ValueError ''cannot convert float NaN to integer''), tr1) \<and>
         (\<forall>n. 0 < n \<longrightarrow>
            submit_order_validate bid symbol order_type time_in_force trigger price stop_price
              (Some (NInt n)) side = Inr (f\<lparr>f_quantity := n\<rparr>)) \<and>
         (\<forall>r. 1 \<le> r \<longrightarrow>
            submit_order_validate bid symbol order_type time_in_force trigger price stop_price
              (Some (NFloat (Fin r))) side = Inr (f\<lparr>f_quantity := trunc_rat r\<rparr>)) \<and>
         submit_order E t symbol order_type time_in_force trigger price stop_price
           (Some (NFloat PosInf)) side tr = (Inl OverflowError, tr1) \<and>
         submit_order E t symbol order_type time_in_force trigger price stop_price
           (Some (NFloat NegInf)) side tr = (Inl OverflowError, tr1)"
proof -
  note l = assms(1) and v = assms(2)
  have rej: "resolve_quantity q = Inl e \<Longrightarrow>
    submit_order E t symbol order_type time_in_force trigger price stop_price q side tr
      = (Inl e, tr1)" for q e
    using submit_order_validation_error [OF l, of order_type time_in_force trigger price
        stop_price q side e]
    by (simp add: validate_other_quantity [OF v] ebind_def)
  have acc: "resolve_quantity q = Inr n \<Longrightarrow>
    submit_order_validate bid symbol order_type time_in_force trigger price stop_price q side
      = Inr (f\<lparr>f_quantity := n\<rparr>)" for q n
    by (simp add: validate_other_quantity [OF v] ebind_def)
  show ?thesis
    by (intro conjI allI impI rej acc resolve_quantity_rejects resolve_quantity_accepts
        resolve_quantity_overflow)
qed

text \<open>
  The theorem at work, for the class as \<^verbatim>\<open>Trader.py\<close> has it: the market buy of AAPL
  is valid for one share, and is refused without a quantity, for zero shares and for
  half a share.
\<close>

theorem quantity_below_one_rejected_witness:
  "submit_order_lookup plain_class_env logged_in (Some ''AAPL'') []
   = (Inr (PStr ''150.0000'', PStr ''/instruments/450/''),
      [Get ''/quotes/?symbols=AAPL'', Get ''/instruments/?symbol=AAPL'']) \<and>
   submit_order_validate (PStr ''150.0000'') (Some ''AAPL'') (Some ''market'') None
     (Some ''immediate'') None None
     (Some (NInt 1)) (Some ''buy'')
   = Inr \<lparr> f_symbol = ''AAPL'', f_order_type = ''market'', f_time_in_force = ''none'',
           f_trigger = ''immediate'', f_price = PStr ''150.0000'', f_stop_price = None,
           f_quantity = 1, f_side = ''buy'' \<rparr> \<and>
   submit_order plain_class_env logged_in (Some ''AAPL'') (Some ''market'') None
     (Some ''immediate'') None None
     None (Some ''buy'') []
   = (Inl (ValueError ''No quantity specified in call to submit_order''),
      [Get ''/quotes/?symbols=AAPL'', Get ''/instruments/?symbol=AAPL'']) \<and>
   submit_order plain_class_env logged_in (Some ''AAPL'') (Some ''market'') None
     (Some ''immediate'') None None
     (Some (NInt 0)) (Some ''buy'') []
   = (Inl (ValueError ''Quantity must be positive number in call to submit_order''),
      [Get ''/quotes/?symbols=AAPL'', Get ''/instruments/?symbol=AAPL'']) \<and>
   submit_order plain_class_env logged_in (Some ''AAPL'') (Some ''market'') None
     (Some ''immediate'') None None
     (Some (NFloat (Fin (1 / 2)))) (Some ''buy'') []
   = (Inl (ValueError ''Quantity must be positive number in call to submit_order''),
      [Get ''/quotes/?symbols=AAPL'', Get ''/instruments/?symbol=AAPL''])"
proof -
  have l: "submit_order_lookup plain_class_env logged_in (Some ''AAPL'') []
   = (Inr (PStr ''150.0000'', PStr ''/instruments/450/''),
      [Get ''/quotes/?symbols=AAPL'', Get ''/instruments/?symbol=AAPL''])"
    by code_simp
  have v: "submit_order_validate (PStr ''150.0000'') (Some ''AAPL'') (Some ''market'') None
     (Some ''immediate'') None None
     (Some (NInt 1)) (Some ''buy'')
   = Inr \<lparr> f_symbol = ''AAPL'', f_order_type = ''market'', f_time_in_force = ''none'',
           f_trigger = ''immediate'', f_price = PStr ''150.0000'', f_stop_price = None,
           f_quantity = 1, f_side = ''buy'' \<rparr>"
    by code_simp
  note c = quantity_below_one_rejected [OF l v]
  note c1 = c [THEN conjunct1]
  note c2 = c [THEN conjunct2, THEN conjunct1, rule_format, of 0]
  note c3 = c [THEN conjunct2, THEN conjunct2, THEN conjunct1, rule_format, of "1 / 2"]
  from l v c1 c2 c3 show ?thesis by simp
qed

text \<open>
  The claim C4 as the spec states it fails at two quantities. A quantity of 2.5 is not a
  positive integer, yet the checks of lines 488-494 accept it as 2: the class as
  \<^verbatim>\<open>Trader.py\<close> has it goes on to line 499 and ends there with the
  \<^verbatim>\<open>AttributeError\<close> of the missing \<^verbatim>\<open>get_account\<close>, not with a \<^verbatim>\<open>ValueError\<close>,
  and with a \<^verbatim>\<open>get_account\<close> supplied the order is posted for 2 shares. A quantity
  of minus infinity is below zero, yet the submission ends with \<^verbatim>\<open>OverflowError\<close>.
\<close>

theorem fractional_quantity_truncated:
  "submit_order_validate (PStr ''150.0000'') (Some ''AAPL'') (Some ''market'') None
     (Some ''immediate'') None None
     (Some (NFloat (Fin (5 / 2)))) (Some ''buy'')
   = Inr \<lparr> f_symbol = ''AAPL'', f_order_type = ''market'', f_time_in_force = ''none'',
           f_trigger = ''immediate'', f_price = PStr ''150.0000'', f_stop_price = None,
           f_quantity = 2, f_side = ''buy'' \<rparr> \<and>
   submit_order plain_class_env logged_in (Some ''AAPL'') (Some ''market'') None
     (Some ''immediate'') None None
     (Some (NFloat (Fin (5 / 2)))) (Some ''buy'') []
   = (Inl AttributeError,
      [Get ''/quotes/?symbols=AAPL'', Get ''/instruments/?symbol=AAPL'', GetAccount]) \<and>
   submit_order listed_env logged_in (Some ''AAPL'') (Some ''market'') None
     (Some ''immediate'') None None
     (Some (NFloat (Fin (5 / 2)))) (Some ''buy'') []
   = (Inr \<lparr> status_code = 200, json_body = Some (PDict [(''state'', PStr ''queued'')]) \<rparr>,
      [Get ''/quotes/?symbols=AAPL'', Get ''/instruments/?symbol=AAPL'', GetAccount,
       Post (PStr ''/orders/'')
         (Some [(''account'', PStr ''/accounts/5QR/''),
                (''instrument'', PStr ''/instruments/450/''),
                (''symbol'', PStr ''AAPL''), (''type'', PStr ''market''),
                (''time_in_force'', PStr ''none''), (''trigger'', PStr ''immediate''),
                (''price'', PStr ''150.0000''), (''quantity'', PInt 2),
                (''side'', PStr ''buy'')])]) \<and>
   submit_order plain_class_env logged_in (Some ''AAPL'') (Some ''market'') None
     (Some ''immediate'') None None
     (Some (NFloat NegInf)) (Some ''buy'') []
   = (Inl OverflowError,
      [Get ''/quotes/?symbols=AAPL'', Get ''/instruments/?symbol=AAPL''])"
  by code_simp

section \<open>Crypto orders\<close>

lemma place_order_payload_Inr:
  assumes "place_order_payload C symbol price_quantity quantity price side time_in_force tr
             = (Inr payload, tr')"
  shows "num_truthy quantity \<noteq> num_truthy price_quantity \<and>
         (\<exists>crypto_id price1 tr1 quantity' price2 account account_id.
            pair_id C (upper symbol) = Inr crypto_id \<and>
            resolve_crypto_price C (upper symbol) price tr = (Inr price1, tr1) \<and>
            resolve_crypto_quantity quantity price_quantity price1 = Inr quantity' \<and>
            trader_fprice C price1 = Inr price2 \<and>
            crypto_account C tr1 = (Inr account, tr') \<and>
            getitem account ''id'' = Inr account_id \<and>
            payload = crypto_payload (if num_truthy price then ''limit'' else ''market'') side
                        quantity' account_id crypto_id price2 (uuid4_hex C)
                        (default_time_in_force time_in_force))"
proof (cases "num_truthy quantity = num_truthy price_quantity")
  case True
  with assms show ?thesis
    by (simp add: place_order_payload_def io_raise_def)
next
  case False
  with assms have "io_bind (io_lift (pair_id C (upper symbol))) (\<lambda>crypto_id.
              io_bind (resolve_crypto_price C (upper symbol) price) (\<lambda>price1.
              io_bind (io_lift (resolve_crypto_quantity quantity price_quantity price1))
                (\<lambda>quantity'.
              io_bind (io_lift (trader_fprice C price1)) (\<lambda>price2.
              io_bind (crypto_account C) (\<lambda>account.
              io_bind (io_lift (getitem account ''id'')) (\<lambda>account_id.
              io_return
                (crypto_payload (if num_truthy price then ''limit'' else ''market'') side
                   quantity' account_id crypto_id price2
                   (uuid4_hex C) (default_time_in_force time_in_force)))))))) tr
      = (Inr payload, tr')"
    by (simp add: place_order_payload_def Let_def)
  then show ?thesis
    using False
    by (auto simp: io_return_def dest!: io_bind_Inr io_lift_Inr)
qed

lemma str_int_not_Nil: "str_int n \<noteq> []"
  by (subst str_int.simps) simp

lemma format_f_not_Nil: "format_f prec x \<noteq> []"
proof (cases x)
  case (Fin r)
  then show ?thesis
    unfolding format_f_def Let_def by (simp add: str_int_not_Nil)
next
  case NegZero
  then show ?thesis
    unfolding format_f_def Let_def by (simp add: str_int_not_Nil)
qed (simp_all add: format_f_def)

lemma crypto_payload_lookup:
  "map_of (crypto_payload order side q a c p r tif) k
     = (case map_of [(''type'', PStr order), (''side'', val_of_str_opt side), (''quantity'', q),
                     (''account_id'', a), (''currency_pair_id'', PStr c), (''price'', p),
                     (''ref_id'', PStr r), (''time_in_force'', PStr tif)] k of
          None \<Rightarrow> None
        | Some v \<Rightarrow> if truthy v then Some v else None)"
  unfolding crypto_payload_def by (rule map_of_filter_snd) simp

lemma crypto_payload_fields:
  "map_of (crypto_payload order side q a c p r tif) ''quantity''
     = (if truthy q then Some q else None)"
  "map_of (crypto_payload order side q a c p r tif) ''price''
     = (if truthy p then Some p else None)"
  "map_of (crypto_payload order side q a c p r tif) ''type''
     = (if order = [] then None else Some (PStr order))"
  by (simp_all add: crypto_payload_lookup)

lemma resolve_crypto_quantity_computed:
  assumes "\<not> num_truthy quantity" and "num_truthy quantity \<noteq> num_truthy price_quantity"
    and "resolve_crypto_quantity quantity price_quantity price = Inr q"
  shows "\<exists>pq x. price_quantity = Some pq \<and> num_truediv pq price = Inr x \<and>
           q = PStr (format_f 8 x)"
  using assms
  by (cases price_quantity)
    (auto simp: resolve_crypto_quantity_def num_truthy_def val_of_num_opt_def
      dest!: ebind_Inr split: if_splits)

lemma resolve_crypto_price_unset:
  "\<not> num_truthy price \<Longrightarrow> resolve_crypto_price C symbol price = crypto_quote_ask C symbol"
  by (cases price) (simp_all add: resolve_crypto_price_def)

text \<open>
  C7, as the code has it: the \<^verbatim>\<open>assert\<close> of line 97 compares the truth values of
  \<^verbatim>\<open>quantity\<close> and \<^verbatim>\<open>price_quantity\<close>, so \<^verbatim>\<open>None\<close> and zero both count as not
  supplied. When both are truthy or both are falsy, \<^verbatim>\<open>place_order\<close> raises
  \<^verbatim>\<open>AssertionError\<close> before any request; in particular when neither is passed, and
  when both are passed and non-zero.
\<close>

theorem place_order_needs_exactly_one_truthy:
  "(num_truthy quantity = num_truthy price_quantity \<longrightarrow>
      place_order C symbol price_quantity quantity price side time_in_force tr
        = (Inl AssertionError, tr)) \<and>
   place_order C symbol None None price side time_in_force tr = (Inl AssertionError, tr) \<and>
   (num_truthy (Some q) \<and> num_truthy (Some pq) \<longrightarrow>
      place_order C symbol (Some pq) (Some q) price side time_in_force tr
        = (Inl AssertionError, tr))"
  by (simp add: place_order_def place_order_payload_def io_bind_def io_raise_def)

text \<open>The theorem at work: 100 dollars and 0.002 BTC at once are refused.\<close>

theorem place_order_needs_exactly_one_truthy_witness:
  "num_truthy (Some (NFloat (Fin (1 / 500)))) = num_truthy (Some (NFloat (Fin 100))) \<and>
   place_order btc_env ''BTC'' (Some (NFloat (Fin 100))) (Some (NFloat (Fin (1 / 500)))) None
     (Some ''buy'') None []
   = (Inl AssertionError, [])"
proof -
  have h: "num_truthy (Some (NFloat (Fin (1 / 500)))) = num_truthy (Some (NFloat (Fin 100)))"
    by code_simp
  from place_order_needs_exactly_one_truthy [THEN conjunct1, rule_format, OF h] h
  show ?thesis by blast
qed

text \<open>
  The claim C7 as the spec states it fails: with a quantity of zero and a
  \<^verbatim>\<open>price_quantity\<close> of 100, both are supplied, and the order is placed.
\<close>

theorem zero_quantity_counts_as_unset:
  "place_order btc_env ''BTC'' (Some (NFloat (Fin 100))) (Some (NInt 0)) None (Some ''buy'')
     None []
   = (Inr (PDict [(''state'', PStr ''unconfirmed'')]),
      [Get ''/marketdata/forex/quotes/3d961844/'', Get ''/accounts/'',
       Post (PStr ''/orders/'')
         (Some [(''type'', PStr ''market''), (''side'', PStr ''buy''),
                (''quantity'', PStr ''0.00200000''), (''account_id'', PStr ''acct-1''),
                (''currency_pair_id'', PStr ''3d961844''), (''price'', PStr ''50000.00''),
                (''ref_id'', PStr ''0f8fad5bd9cb469fa16570867728950e''),
                (''time_in_force'', PStr ''gtc'')])])"
  by code_simp

text \<open>
  C8: when \<^verbatim>\<open>quantity\<close> is unset (falsy) and the payload is emitted,
  \<^verbatim>\<open>price_quantity\<close> was passed and the \<^verbatim>\<open>quantity\<close> of the payload is the string
  of \<^verbatim>\<open>price_quantity / price\<close> with eight decimals, where \<^verbatim>\<open>price\<close> is the price
  of line 103 (the price passed, or the live ask price). In the scenario of the spec,
  100 dollars of BTC at an ask price of 50000 give the quantity \<^verbatim>\<open>0.00200000\<close>.
\<close>

theorem quantity_from_price_quantity:
  "(\<not> num_truthy quantity \<and>
    place_order_payload C symbol price_quantity quantity price side time_in_force tr
      = (Inr payload, tr') \<longrightarrow>
    (\<exists>pq p tr1 x.
       price_quantity = Some pq \<and>
       resolve_crypto_price C (upper symbol) price tr = (Inr p, tr1) \<and>
       num_truediv pq p = Inr x \<and>
       map_of payload ''quantity'' = Some (PStr (format_f 8 x)))) \<and>
   place_order_payload btc_env ''BTC'' (Some (NFloat (Fin 100))) None None (Some ''buy'') None []
     = (Inr [(''type'', PStr ''market''), (''side'', PStr ''buy''),
             (''quantity'', PStr ''0.00200000''), (''account_id'', PStr ''acct-1''),
             (''currency_pair_id'', PStr ''3d961844''), (''price'', PStr ''50000.00''),
             (''ref_id'', PStr ''0f8fad5bd9cb469fa16570867728950e''),
             (''time_in_force'', PStr ''gtc'')],
        [Get ''/marketdata/forex/quotes/3d961844/'', Get ''/accounts/''])"
proof (intro conjI impI)
  assume a: "\<not> num_truthy quantity \<and>
    place_order_payload C symbol price_quantity quantity price side time_in_force tr
      = (Inr payload, tr')"
  from place_order_payload_Inr [OF a [THEN conjunct2]]
  obtain crypto_id price1 tr1 quantity' price2 account_id where
    ne: "num_truthy quantity \<noteq> num_truthy price_quantity"
    and rp: "resolve_crypto_price C (upper symbol) price tr = (Inr price1, tr1)"
    and rq: "resolve_crypto_quantity quantity price_quantity price1 = Inr quantity'"
    and p: "payload = crypto_payload (if num_truthy price then ''limit'' else ''market'') side
                        quantity' account_id crypto_id price2 (uuid4_hex C)
                        (default_time_in_force time_in_force)"
    by blast
  from resolve_crypto_quantity_computed [OF a [THEN conjunct1] ne rq]
  obtain pq x where pq: "price_quantity = Some pq" and d: "num_truediv pq price1 = Inr x"
    and q: "quantity' = PStr (format_f 8 x)"
    by blast
  have "map_of payload ''quantity'' = Some (PStr (format_f 8 x))"
    by (simp add: p q crypto_payload_fields format_f_not_Nil)
  with pq rp d show "\<exists>pq p tr1 x.
       price_quantity = Some pq \<and>
       resolve_crypto_price C (upper symbol) price tr = (Inr p, tr1) \<and>
       num_truediv pq p = Inr x \<and>
       map_of payload ''quantity'' = Some (PStr (format_f 8 x))"
    by blast
next
  show "place_order_payload btc_env ''BTC'' (Some (NFloat (Fin 100))) None None (Some ''buy'')
      None []
     = (Inr [(''type'', PStr ''market''), (''side'', PStr ''buy''),
             (''quantity'', PStr ''0.00200000''), (''account_id'', PStr ''acct-1''),
             (''currency_pair_id'', PStr ''3d961844''), (''price'', PStr ''50000.00''),
             (''ref_id'', PStr ''0f8fad5bd9cb469fa16570867728950e''),
             (''time_in_force'', PStr ''gtc'')],
        [Get ''/marketdata/forex/quotes/3d961844/'', Get ''/accounts/''])"
    by code_simp
qed

text \<open>The theorem at work: 100 dollars at a limit price of 40000 are 0.0025 BTC.\<close>

theorem quantity_from_price_quantity_witness:
  "\<not> num_truthy None \<and>
   place_order_payload btc_env ''btc'' (Some (NInt 100)) None (Some (NFloat (Fin 40000)))
     (Some ''sell'') (Some ''gfd'') []
   = (Inr [(''type'', PStr ''limit''), (''side'', PStr ''sell''),
           (''quantity'', PStr ''0.00250000''), (''account_id'', PStr ''acct-1''),
           (''currency_pair_id'', PStr ''3d961844''), (''price'', PStr ''40000.00''),
           (''ref_id'', PStr ''0f8fad5bd9cb469fa16570867728950e''),
           (''time_in_force'', PStr ''gfd'')],
      [Get ''/accounts/'']) \<and>
   (\<exists>pq p tr1 x.
       Some (NInt 100) = Some pq \<and>
       resolve_crypto_price btc_env (upper ''btc'') (Some (NFloat (Fin 40000))) []
         = (Inr p, tr1) \<and>
       num_truediv pq p = Inr x \<and>
       map_of [(''type'', PStr ''limit''), (''side'', PStr ''sell''),
           (''quantity'', PStr ''0.00250000''), (''account_id'', PStr ''acct-1''),
           (''currency_pair_id'', PStr ''3d961844''), (''price'', PStr ''40000.00''),
           (''ref_id'', PStr ''0f8fad5bd9cb469fa16570867728950e''),
           (''time_in_force'', PStr ''gfd'')] ''quantity'' = Some (PStr (format_f 8 x)))"
proof -
  have n: "\<not> num_truthy None"
    by code_simp
  have h: "place_order_payload btc_env ''btc'' (Some (NInt 100)) None (Some (NFloat (Fin 40000)))
     (Some ''sell'') (Some ''gfd'') []
   = (Inr [(''type'', PStr ''limit''), (''side'', PStr ''sell''),
           (''quantity'', PStr ''0.00250000''), (''account_id'', PStr ''acct-1''),
           (''currency_pair_id'', PStr ''3d961844''), (''price'', PStr ''40000.00''),
           (''ref_id'', PStr ''0f8fad5bd9cb469fa16570867728950e''),
           (''time_in_force'', PStr ''gfd'')],
      [Get ''/accounts/''])"
    by code_simp
  from quantity_from_price_quantity [THEN conjunct1, rule_format, OF conjI [OF n h]] n h
  show ?thesis by blast
qed

text \<open>
  C9, as the code has it: when \<^verbatim>\<open>price\<close> is unset (falsy) and the payload is emitted,
  the order is a market order, the live ask price was fetched, it is the divisor of a
  quantity computed from \<^verbatim>\<open>price_quantity\<close>, and what \<^verbatim>\<open>_fprice\<close> returns for it
  is the \<^verbatim>\<open>price\<close> of the payload whenever that value is truthy.
\<close>

theorem ask_price_sent_as_price:
  "\<not> num_truthy price \<and>
   place_order_payload C symbol price_quantity quantity price side time_in_force tr
     = (Inr payload, tr') \<longrightarrow>
   map_of payload ''type'' = Some (PStr ''market'') \<and>
   (\<exists>ask tr1 p.
      crypto_quote_ask C (upper symbol) tr = (Inr ask, tr1) \<and>
      trader_fprice C ask = Inr p \<and>
      map_of payload ''price'' = (if truthy p then Some p else None) \<and>
      (\<not> num_truthy quantity \<longrightarrow>
         (\<exists>pq x. price_quantity = Some pq \<and> num_truediv pq ask = Inr x \<and>
            map_of payload ''quantity'' = Some (PStr (format_f 8 x)))))"
proof
  assume a: "\<not> num_truthy price \<and>
   place_order_payload C symbol price_quantity quantity price side time_in_force tr
     = (Inr payload, tr')"
  then have np: "\<not> num_truthy price" by simp
  from place_order_payload_Inr [OF a [THEN conjunct2]]
  obtain crypto_id price1 tr1 quantity' price2 account_id where
    ne: "num_truthy quantity \<noteq> num_truthy price_quantity"
    and rp: "resolve_crypto_price C (upper symbol) price tr = (Inr price1, tr1)"
    and rq: "resolve_crypto_quantity quantity price_quantity price1 = Inr quantity'"
    and fp: "trader_fprice C price1 = Inr price2"
    and p: "payload = crypto_payload (if num_truthy price then ''limit'' else ''market'') side
                        quantity' account_id crypto_id price2 (uuid4_hex C)
                        (default_time_in_force time_in_force)"
    by blast
  have ask: "crypto_quote_ask C (upper symbol) tr = (Inr price1, tr1)"
    using rp by (simp add: resolve_crypto_price_unset [OF np])
  have ty: "map_of payload ''type'' = Some (PStr ''market'')"
    using np by (simp add: p crypto_payload_fields)
  have pr: "map_of payload ''price'' = (if truthy price2 then Some price2 else None)"
    by (simp add: p crypto_payload_fields)
  have qu: "\<not> num_truthy quantity \<longrightarrow>
         (\<exists>pq x. price_quantity = Some pq \<and> num_truediv pq price1 = Inr x \<and>
            map_of payload ''quantity'' = Some (PStr (format_f 8 x)))"
  proof
    assume nq: "\<not> num_truthy quantity"
    from resolve_crypto_quantity_computed [OF nq ne rq]
    obtain pq x where "price_quantity = Some pq" and "num_truediv pq price1 = Inr x"
      and q: "quantity' = PStr (format_f 8 x)"
      by blast
    moreover have "map_of payload ''quantity'' = Some (PStr (format_f 8 x))"
      by (simp add: p q crypto_payload_fields format_f_not_Nil)
    ultimately show "\<exists>pq x. price_quantity = Some pq \<and> num_truediv pq price1 = Inr x \<and>
            map_of payload ''quantity'' = Some (PStr (format_f 8 x))"
      by blast
  qed
  from ty ask fp pr qu
  show "map_of payload ''type'' = Some (PStr ''market'') \<and>
   (\<exists>ask tr1 p.
      crypto_quote_ask C (upper symbol) tr = (Inr ask, tr1) \<and>
      trader_fprice C ask = Inr p \<and>
      map_of payload ''price'' = (if truthy p then Some p else None) \<and>
      (\<not> num_truthy quantity \<longrightarrow>
         (\<exists>pq x. price_quantity = Some pq \<and> num_truediv pq ask = Inr x \<and>
            map_of payload ''quantity'' = Some (PStr (format_f 8 x)))))"
    by blast
qed

text \<open>The theorem at work: a market sell of half a BTC carries the ask price.\<close>

theorem ask_price_sent_as_price_witness:
  "\<not> num_truthy None \<and>
   place_order_payload btc_env ''btc'' None (Some (NFloat (Fin (1 / 2)))) None
     (Some ''sell'') None []
   = (Inr [(''type'', PStr ''market''), (''side'', PStr ''sell''),
           (''quantity'', PFloat (Fin (1 / 2))), (''account_id'', PStr ''acct-1''),
           (''currency_pair_id'', PStr ''3d961844''), (''price'', PStr ''50000.00''),
           (''ref_id'', PStr ''0f8fad5bd9cb469fa16570867728950e''),
           (''time_in_force'', PStr ''gtc'')],
      [Get ''/marketdata/forex/quotes/3d961844/'', Get ''/accounts/'']) \<and>
   map_of [(''type'', PStr ''market''), (''side'', PStr ''sell''),
           (''quantity'', PFloat (Fin (1 / 2))), (''account_id'', PStr ''acct-1''),
           (''currency_pair_id'', PStr ''3d961844''), (''price'', PStr ''50000.00''),
           (''ref_id'', PStr ''0f8fad5bd9cb469fa16570867728950e''),
           (''time_in_force'', PStr ''gtc'')] ''type'' = Some (PStr ''market'')"
proof -
  have n: "\<not> num_truthy None"
    by code_simp
  have h: "place_order_payload btc_env ''btc'' None (Some (NFloat (Fin (1 / 2)))) None
     (Some ''sell'') None []
   = (Inr [(''type'', PStr ''market''), (''side'', PStr ''sell''),
           (''quantity'', PFloat (Fin (1 / 2))), (''account_id'', PStr ''acct-1''),
           (''currency_pair_id'', PStr ''3d961844''), (''price'', PStr ''50000.00''),
           (''ref_id'', PStr ''0f8fad5bd9cb469fa16570867728950e''),
           (''time_in_force'', PStr ''gtc'')],
      [Get ''/marketdata/forex/quotes/3d961844/'', Get ''/accounts/''])"
    by code_simp
  from ask_price_sent_as_price [rule_format, OF conjI [OF n h], THEN conjunct1] n h
  show ?thesis by blast
qed

text \<open>
  The claim C9 as the spec states it fails: in the scenario of the spec (100 dollars of
  BTC, no price passed) the market order that is posted has a \<^verbatim>\<open>price\<close> field, the
  formatted ask price.
\<close>

theorem market_order_payload_has_price:
  "place_order btc_env ''BTC'' (Some (NFloat (Fin 100))) None None (Some ''buy'') None []
   = (Inr (PDict [(''state'', PStr ''unconfirmed'')]),
      [Get ''/marketdata/forex/quotes/3d961844/'', Get ''/accounts/'',
       Post (PStr ''/orders/'')
         (Some [(''type'', PStr ''market''), (''side'', PStr ''buy''),
                (''quantity'', PStr ''0.00200000''), (''account_id'', PStr ''acct-1''),
                (''currency_pair_id'', PStr ''3d961844''), (''price'', PStr ''50000.00''),
                (''ref_id'', PStr ''0f8fad5bd9cb469fa16570867728950e''),
                (''time_in_force'', PStr ''gtc'')])])"
  by code_simp

end
